theory Spec2Isabelle
  imports Main
begin

section \<open>JavaScript values\<close>

text \<open>
  The values that reach sqlongo through its API: the JSON-like values and \<open>undefined\<close>.
  An object is the list of its own enumerable string-keyed properties, in the order
  \<open>Object.keys\<close> enumerates them. Numbers are the integers (row ids, limits, offsets);
  fractions, NaN and the infinities are left out, and so are functions and symbols.
\<close>

datatype jsval =
    Undefined
  | Null
  | Bool bool
  | Num int
  | Str string
  | Arr "jsval list"
  | Obj "(string \<times> jsval) list"

datatype error =
    TypeError string
  | Error string
  | StoreError string

fun typeof :: "jsval \<Rightarrow> string" where
  "typeof Undefined = ''undefined''"
| "typeof Null = ''object''"
| "typeof (Bool b) = ''boolean''"
| "typeof (Num n) = ''number''"
| "typeof (Str s) = ''string''"
| "typeof (Arr xs) = ''object''"
| "typeof (Obj kvs) = ''object''"

fun isArray :: "jsval \<Rightarrow> bool" where
  "isArray (Arr xs) = True"
| "isArray v = False"

fun elements :: "jsval \<Rightarrow> jsval list" where
  "elements (Arr xs) = xs"
| "elements v = []"

text \<open>Decimal rendering of a number, as \<open>String(n)\<close> gives it for an integer.\<close>

fun show_nat :: "nat \<Rightarrow> string" where
  "show_nat n =
     (if n < 10 then [''0123456789'' ! n]
      else show_nat (n div 10) @ [''0123456789'' ! (n mod 10)])"

definition show_int :: "int \<Rightarrow> string" where
  "show_int i = (if i < 0 then CHR ''-'' # show_nat (nat (- i)) else show_nat (nat i))"

text \<open>\<open>Array.prototype.join\<close> on strings.\<close>

fun join :: "string \<Rightarrow> string list \<Rightarrow> string" where
  "join sep [] = []"
| "join sep [x] = x"
| "join sep (x # y # ys) = x @ sep @ join sep (y # ys)"

text \<open>
  \<open>String(v)\<close>, which a template literal and \<open>join\<close> apply to a value. Inside
  \<open>join\<close> an element that is \<open>null\<close> or \<open>undefined\<close> renders as the empty string.
\<close>

fun toString :: "jsval \<Rightarrow> string" where
  "toString Undefined = ''undefined''"
| "toString Null = ''null''"
| "toString (Bool b) = (if b then ''true'' else ''false'')"
| "toString (Num n) = show_int n"
| "toString (Str s) = s"
| "toString (Arr xs) =
     join '','' (map (\<lambda>x. if x = Undefined \<or> x = Null then [] else toString x) xs)"
| "toString (Obj kvs) = ''[object Object]''"

definition join_values :: "string \<Rightarrow> jsval list \<Rightarrow> string" where
  "join_values sep xs =
     join sep (map (\<lambda>x. if x = Undefined \<or> x = Null then [] else toString x) xs)"

text \<open>
  \<open>Object.keys(v)\<close>: the property names of an object, the indices of an array or a
  string, nothing for a number or a boolean, and a TypeError for \<open>null\<close> and
  \<open>undefined\<close>.
\<close>

definition index_keys :: "nat \<Rightarrow> string list" where
  "index_keys n = map show_nat [0..<n]"

fun Object_keys :: "jsval \<Rightarrow> error + string list" where
  "Object_keys Undefined = Inl (TypeError ''Cannot convert undefined or null to object'')"
| "Object_keys Null = Inl (TypeError ''Cannot convert undefined or null to object'')"
| "Object_keys (Bool b) = Inr []"
| "Object_keys (Num n) = Inr []"
| "Object_keys (Str s) = Inr (index_keys (length s))"
| "Object_keys (Arr xs) = Inr (index_keys (length xs))"
| "Object_keys (Obj kvs) = Inr (map fst kvs)"

text \<open>
  \<open>v[k]\<close> for a string key: a missing property reads as \<open>undefined\<close>. The callers
  below read only keys that \<open>Object.keys\<close> returned, so \<open>null[k]\<close> and
  \<open>undefined[k]\<close> (a TypeError in JavaScript) are never reached.
\<close>

fun get_prop :: "jsval \<Rightarrow> string \<Rightarrow> jsval" where
  "get_prop (Obj kvs) k = (case map_of kvs k of None \<Rightarrow> Undefined | Some v \<Rightarrow> v)"
| "get_prop (Arr xs) k =
     (if k = ''length'' then Num (int (length xs))
      else case map_of (zip (index_keys (length xs)) xs) k of
             None \<Rightarrow> Undefined | Some v \<Rightarrow> v)"
| "get_prop v k = Undefined"

text \<open>\<open>xs.indexOf(v)\<close> on an array of strings: strict equality, \<open>-1\<close> when absent.\<close>

fun indexOf_from :: "int \<Rightarrow> string list \<Rightarrow> jsval \<Rightarrow> int" where
  "indexOf_from i [] v = - 1"
| "indexOf_from i (k # ks) v = (if v = Str k then i else indexOf_from (i + 1) ks v)"

definition indexOf :: "string list \<Rightarrow> jsval \<Rightarrow> int" where
  "indexOf ks v = indexOf_from 0 ks v"

section \<open>The operator table\<close>

definition CRITERION_KEYS :: jsval where
  "CRITERION_KEYS = Obj
     [(''$like'', Str ''like''),
      (''$glob'', Str ''glob''),
      (''$gt'', Str ''>''),
      (''$lt'', Str ''<''),
      (''$gte'', Str ''>=''),
      (''$lte'', Str ''<=''),
      (''$ne'', Str ''<>''),
      (''$eq'', Str ''=''),
      (''$not'', Str ''is not''),
      (''$in'', Str ''in'')]"

section \<open>The key filter\<close>

text \<open>
  The repository holds the filter in two forms. This is the one of the newest source file
  (the file with the \<open>createTableTasks\<close> barrier): it keeps the untrusted keys that
  are trusted keys.
\<close>

definition filteredKeys :: "jsval \<Rightarrow> jsval \<Rightarrow> error + string list" where
  "filteredKeys untrustedObject trustedObject =
     (case Object_keys trustedObject of
        Inl e \<Rightarrow> Inl e
      | Inr trustedKeys \<Rightarrow>
          (case Object_keys untrustedObject of
             Inl e \<Rightarrow> Inl e
           | Inr untrustedKeys \<Rightarrow>
               Inr (filter (\<lambda>k. indexOf trustedKeys (Str k) \<noteq> - 1) untrustedKeys)))"

text \<open>
  The form of \<open>index.js\<close> (and of the oldest source file): it throws at the first
  untrusted key that is not trusted. The test \<open>if (untrustedKey)\<close> is on the key's
  truthiness, so the empty string passes it like \<open>undefined\<close> (nothing found) does.
\<close>

definition filteredKeys_index :: "jsval \<Rightarrow> jsval \<Rightarrow> error + string list" where
  "filteredKeys_index untrustedObject trustedObject =
     (case Object_keys trustedObject of
        Inl e \<Rightarrow> Inl e
      | Inr trustedKeys \<Rightarrow>
          (case Object_keys untrustedObject of
             Inl e \<Rightarrow> Inl e
           | Inr untrustedKeys \<Rightarrow>
               (case List.find (\<lambda>k. indexOf trustedKeys (Str k) = - 1) untrustedKeys of
                  None \<Rightarrow> Inr untrustedKeys
                | Some untrustedKey \<Rightarrow>
                    if untrustedKey \<noteq> []
                    then Inl (Error (''no such column: '' @ untrustedKey))
                    else Inr untrustedKeys)))"

section \<open>The criteria compiler\<close>

text \<open>
  \<open>parseCriteria\<close> pushes onto two arrays, \<open>criteria\<close> and \<open>values\<close>, in two nested
  loops; the loops are recursions over the key lists that carry both arrays.
\<close>

fun criterion_loop ::
  "string \<Rightarrow> jsval \<Rightarrow> string list \<Rightarrow> string list \<times> jsval list \<Rightarrow> string list \<times> jsval list"
where
  "criterion_loop column criterion [] acc = acc"
| "criterion_loop column criterion (criterionKey # rest) (criteria, values) =
     criterion_loop column criterion rest
       (if isArray (get_prop criterion criterionKey) then
          (let placeholders =
                 join '', '' (map (\<lambda>k. ''?'') (elements (get_prop criterion criterionKey)))
           in (criteria @
                 [column @ '' '' @ toString (get_prop CRITERION_KEYS criterionKey) @
                    '' ('' @ placeholders @ '')''],
               values @ elements (get_prop criterion criterionKey)))
        else
          (criteria @ [column @ '' '' @ toString (get_prop CRITERION_KEYS criterionKey) @ '' ?''],
           values @ [get_prop criterion criterionKey]))"

fun column_loop ::
  "jsval \<Rightarrow> string list \<Rightarrow> string list \<times> jsval list \<Rightarrow> error + (string list \<times> jsval list)"
where
  "column_loop criteriaObject [] acc = Inr acc"
| "column_loop criteriaObject (column # rest) (criteria, values) =
     (let criterion = get_prop criteriaObject column in
      if typeof criterion = ''object'' then
        (case filteredKeys criterion CRITERION_KEYS of
           Inl e \<Rightarrow> Inl e
         | Inr filteredCriterionKeys \<Rightarrow>
             column_loop criteriaObject rest
               (criterion_loop column criterion filteredCriterionKeys (criteria, values)))
      else column_loop criteriaObject rest (criteria @ [column @ '' = ?''], values @ [criterion]))"

definition parseCriteria :: "jsval \<Rightarrow> jsval \<Rightarrow> error + (string \<times> jsval list)" where
  "parseCriteria criteriaObject schemaObject =
     (case filteredKeys criteriaObject schemaObject of
        Inl e \<Rightarrow> Inl e
      | Inr keys \<Rightarrow>
          (case column_loop criteriaObject keys ([], []) of
             Inl e \<Rightarrow> Inl e
           | Inr (criteria, values) \<Rightarrow> Inr (join '' and '' criteria, values)))"

text \<open>
  The compiler of \<open>index.js\<close>: the same loops over the throwing key filter.
\<close>

fun column_loop_index ::
  "jsval \<Rightarrow> string list \<Rightarrow> string list \<times> jsval list \<Rightarrow> error + (string list \<times> jsval list)"
where
  "column_loop_index criteriaObject [] acc = Inr acc"
| "column_loop_index criteriaObject (column # rest) (criteria, values) =
     (let criterion = get_prop criteriaObject column in
      if typeof criterion = ''object'' then
        (case filteredKeys_index criterion CRITERION_KEYS of
           Inl e \<Rightarrow> Inl e
         | Inr filteredCriterionKeys \<Rightarrow>
             column_loop_index criteriaObject rest
               (criterion_loop column criterion filteredCriterionKeys (criteria, values)))
      else
        column_loop_index criteriaObject rest
          (criteria @ [column @ '' = ?''], values @ [criterion]))"

definition parseCriteria_index :: "jsval \<Rightarrow> jsval \<Rightarrow> error + (string \<times> jsval list)" where
  "parseCriteria_index criteriaObject schemaObject =
     (case filteredKeys_index criteriaObject schemaObject of
        Inl e \<Rightarrow> Inl e
      | Inr keys \<Rightarrow>
          (case column_loop_index criteriaObject keys ([], []) of
             Inl e \<Rightarrow> Inl e
           | Inr (criteria, values) \<Rightarrow> Inr (join '' and '' criteria, values)))"

text \<open>
  The compiler of the oldest source file: for an array operand it joins the elements
  themselves into the fragment (\<open>criterion[criterionKey].join(', ')\<close>) where the two
  later files join one \<open>?\<close> per element.
\<close>

fun criterion_loop_old ::
  "string \<Rightarrow> jsval \<Rightarrow> string list \<Rightarrow> string list \<times> jsval list \<Rightarrow> string list \<times> jsval list"
where
  "criterion_loop_old column criterion [] acc = acc"
| "criterion_loop_old column criterion (criterionKey # rest) (criteria, values) =
     criterion_loop_old column criterion rest
       (if isArray (get_prop criterion criterionKey) then
          (let placeholders = join_values '', '' (elements (get_prop criterion criterionKey))
           in (criteria @
                 [column @ '' '' @ toString (get_prop CRITERION_KEYS criterionKey) @
                    '' ('' @ placeholders @ '')''],
               values @ elements (get_prop criterion criterionKey)))
        else
          (criteria @ [column @ '' '' @ toString (get_prop CRITERION_KEYS criterionKey) @ '' ?''],
           values @ [get_prop criterion criterionKey]))"

fun column_loop_old ::
  "jsval \<Rightarrow> string list \<Rightarrow> string list \<times> jsval list \<Rightarrow> error + (string list \<times> jsval list)"
where
  "column_loop_old criteriaObject [] acc = Inr acc"
| "column_loop_old criteriaObject (column # rest) (criteria, values) =
     (let criterion = get_prop criteriaObject column in
      if typeof criterion = ''object'' then
        (case filteredKeys_index criterion CRITERION_KEYS of
           Inl e \<Rightarrow> Inl e
         | Inr filteredCriterionKeys \<Rightarrow>
             column_loop_old criteriaObject rest
               (criterion_loop_old column criterion filteredCriterionKeys (criteria, values)))
      else
        column_loop_old criteriaObject rest
          (criteria @ [column @ '' = ?''], values @ [criterion]))"

definition parseCriteria_old :: "jsval \<Rightarrow> jsval \<Rightarrow> error + (string \<times> jsval list)" where
  "parseCriteria_old criteriaObject schemaObject =
     (case filteredKeys_index criteriaObject schemaObject of
        Inl e \<Rightarrow> Inl e
      | Inr keys \<Rightarrow>
          (case column_loop_old criteriaObject keys ([], []) of
             Inl e \<Rightarrow> Inl e
           | Inr (criteria, values) \<Rightarrow> Inr (join '' and '' criteria, values)))"

section \<open>The sqlite3 database\<close>

text \<open>
  The sqlite3 library is not part of the repository. Its execution of one statement is a
  parameter of the model: from the database \<open>'e\<close>, the statement text and the bound
  parameters it gives an error message, or the result rows and the database afterwards.
  \<open>AsyncDatabase\<close> wraps the three callbacks of the library into promises: \<open>run\<close>
  delivers no result, \<open>get\<close> the first result row or \<open>undefined\<close>, \<open>all\<close> the array
  of the result rows. A statement that fails leaves the database as it was.
\<close>

type_synonym 'e engine = "'e \<Rightarrow> string \<Rightarrow> jsval list \<Rightarrow> string + (jsval list \<times> 'e)"

definition run :: "'e engine \<Rightarrow> 'e \<Rightarrow> string \<Rightarrow> jsval list \<Rightarrow> (error + jsval) \<times> 'e" where
  "run exec e sql param =
     (case exec e sql param of
        Inl err \<Rightarrow> (Inl (StoreError err), e)
      | Inr (rows, e') \<Rightarrow> (Inr Undefined, e'))"

definition get :: "'e engine \<Rightarrow> 'e \<Rightarrow> string \<Rightarrow> jsval list \<Rightarrow> (error + jsval) \<times> 'e" where
  "get exec e sql param =
     (case exec e sql param of
        Inl err \<Rightarrow> (Inl (StoreError err), e)
      | Inr (rows, e') \<Rightarrow> (Inr (case rows of [] \<Rightarrow> Undefined | row # _ \<Rightarrow> row), e'))"

definition all :: "'e engine \<Rightarrow> 'e \<Rightarrow> string \<Rightarrow> jsval list \<Rightarrow> (error + jsval) \<times> 'e" where
  "all exec e sql param =
     (case exec e sql param of
        Inl err \<Rightarrow> (Inl (StoreError err), e)
      | Inr (rows, e') \<Rightarrow> (Inr (Arr rows), e'))"

section \<open>Promises and the database handle\<close>

text \<open>
  A promise is pending, rejected with an error or fulfilled. The promises that
  \<open>createTableTasks\<close> is built from are \<open>Promise.resolve()\<close>, the promise of the
  \<open>n\<close>th creation statement handed to \<open>db.run\<close>, and \<open>Promise.all\<close> of a list. The
  handle keeps the creation statements in the order \<open>set\<close> issued them, each with the
  state of its promise. \<open>Promise.all\<close> rejects as soon as a member rejects; when several
  members have rejected the model reports the leftmost one's error.
\<close>

datatype 'a outcome = Pending | Rejected error | Fulfilled 'a

datatype promise = Promise_resolve | Run_promise nat | Promise_all "promise list"

fun all_state :: "unit outcome list \<Rightarrow> unit outcome" where
  "all_state [] = Fulfilled ()"
| "all_state (Rejected e # ss) = Rejected e"
| "all_state (Fulfilled u # ss) = all_state ss"
| "all_state (Pending # ss) = (case all_state ss of Rejected e \<Rightarrow> Rejected e | _ \<Rightarrow> Pending)"

fun promise_state :: "(string \<times> unit outcome) list \<Rightarrow> promise \<Rightarrow> unit outcome" where
  "promise_state ts Promise_resolve = Fulfilled ()"
| "promise_state ts (Run_promise n) = (if n < length ts then snd (ts ! n) else Pending)"
| "promise_state ts (Promise_all ps) = all_state (map (promise_state ts) ps)"

record 'e sqlongo =
  db :: 'e
  tasks :: "(string \<times> unit outcome) list"
  createTableTasks :: promise
  schemas :: "string \<rightharpoonup> jsval"

text \<open>
  \<open>new Sqlongo(databaseName)\<close>, on the database that sqlite3 opened (the path handling
  of the constructor is left out).
\<close>

definition Sqlongo :: "'e \<Rightarrow> 'e sqlongo" where
  "Sqlongo e = \<lparr>db = e, tasks = [], createTableTasks = Promise_resolve, schemas = Map.empty\<rparr>"

text \<open>\<open>schemas[table]\<close>: \<open>undefined\<close> for a table that was never assigned.\<close>

definition schema_of :: "'e sqlongo \<Rightarrow> string \<Rightarrow> jsval" where
  "schema_of st table = (case schemas st table of None \<Rightarrow> Undefined | Some schema \<Rightarrow> schema)"

text \<open>
  The statement texts are template literals that start with a line break and the
  indentation of the source line, and end with a line break and the indentation of the
  closing backquote.
\<close>

definition create_table_sql :: "string \<Rightarrow> string \<Rightarrow> string" where
  "create_table_sql table columns =
     [CHR 0x0A] @ ''        create table if not exists '' @ table @ '' ('' @
     [CHR 0x0A] @ ''          '' @ columns @
     [CHR 0x0A] @ ''        )'' @
     [CHR 0x0A] @ ''      ''"

definition statement :: "string \<Rightarrow> string" where
  "statement body = [CHR 0x0A] @ ''            '' @ body @ [CHR 0x0A] @ ''          ''"

text \<open>
  The \<open>set\<close> trap of the proxy, \<open>db.table = schema\<close>. It returns at once: the creation
  statement is handed to \<open>db.run\<close>, whose promise joins \<open>createTableTasks\<close>, and nothing
  waits for it. The schema is stored before the statement text is built, so a throw while
  building the text leaves it stored.
\<close>

definition set_trap :: "string \<Rightarrow> jsval \<Rightarrow> 'e sqlongo \<Rightarrow> (error + bool) \<times> 'e sqlongo" where
  "set_trap table schema st =
     (if typeof schema \<noteq> ''object''
      then (Inl (Error (''db.'' @ table @ '': schema must be an object'')), st)
      else
        (let st1 = st\<lparr>schemas := (schemas st)(table \<mapsto> schema)\<rparr> in
         case Object_keys schema of
           Inl e \<Rightarrow> (Inl e, st1)
         | Inr keys \<Rightarrow>
             (let sql = create_table_sql table
                          (join '', '' (map (\<lambda>k. k @ '' '' @ toString (get_prop schema k)) keys))
              in (Inr True,
                  st1\<lparr>tasks := tasks st1 @ [(sql, Pending)],
                      createTableTasks :=
                        Promise_all [createTableTasks st1, Run_promise (length (tasks st1))]\<rparr>))))"

text \<open>
  sqlite3 completes the \<open>n\<close>th creation statement: it runs on the database and its promise
  settles. Nothing happens for a statement that has completed already.
\<close>

definition complete_task :: "'e engine \<Rightarrow> nat \<Rightarrow> 'e sqlongo \<Rightarrow> 'e sqlongo" where
  "complete_task exec n st =
     (if n < length (tasks st) \<and> snd (tasks st ! n) = Pending then
        (case run exec (db st) (fst (tasks st ! n)) [] of
           (Inl e, e') \<Rightarrow> st\<lparr>tasks := (tasks st)[n := (fst (tasks st ! n), Rejected e)]\<rparr>
         | (Inr v, e') \<Rightarrow>
             st\<lparr>db := e', tasks := (tasks st)[n := (fst (tasks st ! n), Fulfilled ())]\<rparr>)
      else st)"

text \<open>
  The \<open>get\<close> trap of the proxy. A key of \<open>Object.prototype\<close> reads \<open>schemas[key]\<close>,
  \<open>raw\<close> gives the raw query function, and every other key gives the table's
  operations, with no look at \<open>schemas\<close>.
\<close>

definition Object_prototype_keys :: "string list" where
  "Object_prototype_keys =
     [''constructor'', ''__defineGetter__'', ''__defineSetter__'', ''hasOwnProperty'',
      ''__lookupGetter__'', ''__lookupSetter__'', ''isPrototypeOf'', ''propertyIsEnumerable'',
      ''toString'', ''valueOf'', ''__proto__'', ''toLocaleString'']"

datatype proxy_value = SchemasEntry string | RawQuery | TableOperations string

definition get_trap :: "string \<Rightarrow> proxy_value" where
  "get_trap key =
     (if key \<in> set Object_prototype_keys then SchemasEntry key
      else if key = ''raw'' then RawQuery
      else TableOperations key)"

section \<open>The table operations\<close>

text \<open>
  Every operation is an async function whose first statement is
  \<open>await createTableTasks\<close>. Called on a handle, it stays pending while that promise is
  pending, rejects with its error when it is rejected, and runs its body when it is
  fulfilled. An argument that the caller leaves out is \<open>undefined\<close>, which is replaced by the
  parameter's default.
\<close>

definition await_createTableTasks ::
  "'e sqlongo \<Rightarrow> ('e sqlongo \<Rightarrow> (error + jsval) \<times> 'e sqlongo) \<Rightarrow> jsval outcome \<times> 'e sqlongo"
where
  "await_createTableTasks st body =
     (case promise_state (tasks st) (createTableTasks st) of
        Pending \<Rightarrow> (Pending, st)
      | Rejected e \<Rightarrow> (Rejected e, st)
      | Fulfilled u \<Rightarrow>
          (case body st of
             (Inl e, st') \<Rightarrow> (Rejected e, st')
           | (Inr v, st') \<Rightarrow> (Fulfilled v, st')))"

definition default_arg :: "jsval \<Rightarrow> jsval \<Rightarrow> jsval" where
  "default_arg d v = (if v = Undefined then d else v)"

text \<open>\<open>criteria && `where (${criteria})`\<close>: the empty string is falsy.\<close>

definition where_clause :: "string \<Rightarrow> string" where
  "where_clause criteria = (if criteria = [] then [] else ''where ('' @ criteria @ '')'')"

definition on_db ::
  "'e sqlongo \<Rightarrow> (error + jsval) \<times> 'e \<Rightarrow> (error + jsval) \<times> 'e sqlongo" where
  "on_db st r = (fst r, st\<lparr>db := snd r\<rparr>)"

text \<open>
  \<open>v.name\<close> and \<open>v[name]\<close> on a result: a TypeError on \<open>undefined\<close> and \<open>null\<close>.
  The message of a TypeError is the JavaScript engine's; the texts here stand for it.
\<close>

definition read_prop :: "jsval \<Rightarrow> string \<Rightarrow> error + jsval" where
  "read_prop v name =
     (if v = Undefined \<or> v = Null
      then Inl (TypeError (''Cannot read property '' @ name @ '' of '' @ toString v))
      else Inr (get_prop v name))"

fun read_props :: "jsval list \<Rightarrow> string \<Rightarrow> error + jsval list" where
  "read_props [] name = Inr []"
| "read_props (v # vs) name =
     (case read_prop v name of
        Inl e \<Rightarrow> Inl e
      | Inr x \<Rightarrow> (case read_props vs name of Inl e \<Rightarrow> Inl e | Inr xs \<Rightarrow> Inr (x # xs)))"

definition find_body ::
  "'e engine \<Rightarrow> string \<Rightarrow> jsval \<Rightarrow> jsval \<Rightarrow> jsval \<Rightarrow> 'e sqlongo \<Rightarrow> (error + jsval) \<times> 'e sqlongo"
where
  "find_body exec table criteriaObj0 limit0 offset0 st =
     (let criteriaObj = default_arg (Obj []) criteriaObj0;
          limit = default_arg (Num (- 1)) limit0;
          offset = default_arg (Num 0) offset0
      in if typeof criteriaObj \<noteq> ''object''
         then (Inl (Error ''find: criteria should be an object''), st)
         else
           (case parseCriteria criteriaObj (schema_of st table) of
              Inl e \<Rightarrow> (Inl e, st)
            | Inr (criteria, values) \<Rightarrow>
                (let sql = statement (''select * from '' @ table @ '' '' @ where_clause criteria @
                                        '' limit ? offset ?'')
                 in on_db st
                      ((if limit = Num 1 then get else all) exec (db st) sql
                         (values @ [limit, offset])))))"

definition find_op ::
  "'e engine \<Rightarrow> string \<Rightarrow> jsval \<Rightarrow> jsval \<Rightarrow> jsval \<Rightarrow> 'e sqlongo \<Rightarrow> jsval outcome \<times> 'e sqlongo"
where
  "find_op exec table criteriaObj limit offset st =
     await_createTableTasks st (find_body exec table criteriaObj limit offset)"

definition count_body ::
  "'e engine \<Rightarrow> string \<Rightarrow> jsval \<Rightarrow> jsval \<Rightarrow> 'e sqlongo \<Rightarrow> (error + jsval) \<times> 'e sqlongo"
where
  "count_body exec table column0 criteriaObj0 st =
     (let column1 = default_arg (Str ''*'') column0;
          criteriaObj1 = default_arg (Obj []) criteriaObj0;
          criteriaObj = (if typeof column1 = ''object'' then column1 else criteriaObj1);
          column = (if typeof column1 = ''object'' then Str ''*'' else column1)
      in if typeof criteriaObj \<noteq> ''object''
         then (Inl (Error ''count: criteria should be an object''), st)
         else
           (case (if column \<noteq> Str ''*''
                  then (case Object_keys (schema_of st table) of
                          Inl e \<Rightarrow> Inl e
                        | Inr keys \<Rightarrow> Inr (indexOf keys column = 0))
                  else Inr False) of
              Inl e \<Rightarrow> (Inl e, st)
            | Inr True \<Rightarrow>
                (Inl (Error (''count: column '' @ toString column @ '' does not exist'')), st)
            | Inr False \<Rightarrow>
                (case parseCriteria criteriaObj (schema_of st table) of
                   Inl e \<Rightarrow> (Inl e, st)
                 | Inr (criteria, values) \<Rightarrow>
                     (let sql = statement (''select count('' @ toString column @ '') count from '' @
                                             table @ '' '' @ where_clause criteria)
                      in case get exec (db st) sql values of
                           (Inl e, e') \<Rightarrow> (Inl e, st\<lparr>db := e'\<rparr>)
                         | (Inr row, e') \<Rightarrow> (read_prop row ''count'', st\<lparr>db := e'\<rparr>)))))"

definition count_op ::
  "'e engine \<Rightarrow> string \<Rightarrow> jsval \<Rightarrow> jsval \<Rightarrow> 'e sqlongo \<Rightarrow> jsval outcome \<times> 'e sqlongo"
where
  "count_op exec table column criteriaObj st =
     await_createTableTasks st (count_body exec table column criteriaObj)"

definition distinct_body ::
  "'e engine \<Rightarrow> string \<Rightarrow> jsval \<Rightarrow> jsval \<Rightarrow> jsval \<Rightarrow> jsval \<Rightarrow> 'e sqlongo \<Rightarrow>
     (error + jsval) \<times> 'e sqlongo"
where
  "distinct_body exec table column criteriaObj0 limit0 offset0 st =
     (let criteriaObj = default_arg (Obj []) criteriaObj0;
          limit = default_arg (Num (- 1)) limit0;
          offset = default_arg (Num 0) offset0
      in if typeof criteriaObj \<noteq> ''object''
         then (Inl (Error ''distinct: criteria should be an object''), st)
         else
           (case Object_keys (schema_of st table) of
              Inl e \<Rightarrow> (Inl e, st)
            | Inr keys \<Rightarrow>
                if indexOf keys column = 0
                then (Inl (Error (''distinct: column '' @ toString column @ '' does not exist'')), st)
                else
                  (case parseCriteria criteriaObj (schema_of st table) of
                     Inl e \<Rightarrow> (Inl e, st)
                   | Inr (criteria, values) \<Rightarrow>
                       (let sql = statement (''select distinct '' @ toString column @ '' from '' @
                                               table @ '' '' @ where_clause criteria @
                                               '' limit ? offset ?'')
                        in case (if limit = Num 1 then get else all) exec (db st) sql
                                  (values @ [limit, offset]) of
                             (Inl e, e') \<Rightarrow> (Inl e, st\<lparr>db := e'\<rparr>)
                           | (Inr (Arr rows), e') \<Rightarrow>
                               (case read_props rows (toString column) of
                                  Inl e \<Rightarrow> (Inl e, st\<lparr>db := e'\<rparr>)
                                | Inr vs \<Rightarrow> (Inr (Arr vs), st\<lparr>db := e'\<rparr>))
                           | (Inr row, e') \<Rightarrow>
                               (Inl (TypeError ''(intermediate value).map is not a function''),
                                st\<lparr>db := e'\<rparr>)))))"

definition distinct_op ::
  "'e engine \<Rightarrow> string \<Rightarrow> jsval \<Rightarrow> jsval \<Rightarrow> jsval \<Rightarrow> jsval \<Rightarrow> 'e sqlongo \<Rightarrow>
     jsval outcome \<times> 'e sqlongo"
where
  "distinct_op exec table column criteriaObj limit offset st =
     await_createTableTasks st (distinct_body exec table column criteriaObj limit offset)"

definition insert_body ::
  "'e engine \<Rightarrow> string \<Rightarrow> jsval \<Rightarrow> 'e sqlongo \<Rightarrow> (error + jsval) \<times> 'e sqlongo"
where
  "insert_body exec table row st =
     (if typeof row \<noteq> ''object''
      then (Inl (Error ''insert: row should be an object''), st)
      else
        (case filteredKeys row (schema_of st table) of
           Inl e \<Rightarrow> (Inl e, st)
         | Inr keys \<Rightarrow>
             (let values = map (get_prop row) keys;
                  placeholders = join '', '' (map (\<lambda>k. ''?'') keys);
                  sql = statement (''insert into '' @ table @ ''('' @ join '', '' keys @
                                     '') values('' @ placeholders @ '')'')
              in on_db st (run exec (db st) sql values))))"

definition insert_op ::
  "'e engine \<Rightarrow> string \<Rightarrow> jsval \<Rightarrow> 'e sqlongo \<Rightarrow> jsval outcome \<times> 'e sqlongo"
where
  "insert_op exec table row st = await_createTableTasks st (insert_body exec table row)"

definition remove_body ::
  "'e engine \<Rightarrow> string \<Rightarrow> jsval \<Rightarrow> jsval \<Rightarrow> jsval \<Rightarrow> 'e sqlongo \<Rightarrow> (error + jsval) \<times> 'e sqlongo"
where
  "remove_body exec table criteriaObj limit0 offset0 st =
     (let limit = default_arg (Num (- 1)) limit0;
          offset = default_arg (Num 0) offset0
      in if typeof criteriaObj \<noteq> ''object''
         then (Inl (Error ''remove: criteria should be an object''), st)
         else
           (case parseCriteria criteriaObj (schema_of st table) of
              Inl e \<Rightarrow> (Inl e, st)
            | Inr (criteria, values) \<Rightarrow>
                (let sql = statement (''delete from '' @ table @
                                        '' where rowid in (select rowid from '' @ table @ '' '' @
                                        where_clause criteria @ '' limit ? offset ?)'')
                 in on_db st (run exec (db st) sql (values @ [limit, offset])))))"

definition remove_op ::
  "'e engine \<Rightarrow> string \<Rightarrow> jsval \<Rightarrow> jsval \<Rightarrow> jsval \<Rightarrow> 'e sqlongo \<Rightarrow> jsval outcome \<times> 'e sqlongo"
where
  "remove_op exec table criteriaObj limit offset st =
     await_createTableTasks st (remove_body exec table criteriaObj limit offset)"

definition update_body ::
  "'e engine \<Rightarrow> string \<Rightarrow> jsval \<Rightarrow> jsval \<Rightarrow> 'e sqlongo \<Rightarrow> (error + jsval) \<times> 'e sqlongo"
where
  "update_body exec table criteriaObj row st =
     (if typeof criteriaObj \<noteq> ''object''
      then (Inl (Error ''update: criteria should be an object''), st)
      else if typeof row \<noteq> ''object''
      then (Inl (Error ''update: row should be an object''), st)
      else
        (case parseCriteria criteriaObj (schema_of st table) of
           Inl e \<Rightarrow> (Inl e, st)
         | Inr (criteria, criteriaValues) \<Rightarrow>
             (case filteredKeys row (schema_of st table) of
                Inl e \<Rightarrow> (Inl e, st)
              | Inr keys \<Rightarrow>
                  (let values = map (get_prop row) keys;
                       operations = join '', '' (map (\<lambda>k. k @ '' = ?'') keys);
                       sql = statement (''update '' @ table @ '' set '' @ operations @ '' '' @
                                          where_clause criteria)
                   in on_db st (run exec (db st) sql (values @ criteriaValues))))))"

definition update_op ::
  "'e engine \<Rightarrow> string \<Rightarrow> jsval \<Rightarrow> jsval \<Rightarrow> 'e sqlongo \<Rightarrow> jsval outcome \<times> 'e sqlongo"
where
  "update_op exec table criteriaObj row st =
     await_createTableTasks st (update_body exec table criteriaObj row)"

section \<open>The handle of index.js\<close>

text \<open>
  \<open>index.js\<close> has no barrier. It marks a schema object with the property
  \<open>__ready__\<close> once its creation statement has completed, and every operation starts
  with \<open>checkAvailability()\<close>. Its wrappers of \<open>run\<close>, \<open>get\<close> and \<open>all\<close> trim the
  statement text and collapse every run of white space to one blank before the statement
  reaches sqlite3.
\<close>

definition READY_KEY :: string where
  "READY_KEY = ''__ready__''"

definition is_space :: "char \<Rightarrow> bool" where
  "is_space c = (c \<in> set [CHR '' '', CHR 0x09, CHR 0x0A, CHR 0x0B, CHR 0x0C, CHR 0x0D])"

definition trim :: "string \<Rightarrow> string" where
  "trim s = rev (dropWhile is_space (rev (dropWhile is_space s)))"

fun collapse_spaces :: "bool \<Rightarrow> string \<Rightarrow> string" where
  "collapse_spaces in_run [] = []"
| "collapse_spaces in_run (c # cs) =
     (if is_space c
      then (if in_run then collapse_spaces True cs else CHR '' '' # collapse_spaces True cs)
      else c # collapse_spaces False cs)"

definition normalize_sql :: "string \<Rightarrow> string" where
  "normalize_sql sql = collapse_spaces False (trim sql)"

definition run_index :: "'e engine \<Rightarrow> 'e \<Rightarrow> string \<Rightarrow> jsval list \<Rightarrow> (error + jsval) \<times> 'e" where
  "run_index exec e sql param = run exec e (normalize_sql sql) param"

definition get_index :: "'e engine \<Rightarrow> 'e \<Rightarrow> string \<Rightarrow> jsval list \<Rightarrow> (error + jsval) \<times> 'e" where
  "get_index exec e sql param = get exec e (normalize_sql sql) param"

definition all_index :: "'e engine \<Rightarrow> 'e \<Rightarrow> string \<Rightarrow> jsval list \<Rightarrow> (error + jsval) \<times> 'e" where
  "all_index exec e sql param = all exec e (normalize_sql sql) param"

record 'e sqlongo_index =
  db_index :: 'e
  schemas_index :: "string \<rightharpoonup> jsval"

definition Sqlongo_index :: "'e \<Rightarrow> 'e sqlongo_index" where
  "Sqlongo_index e = \<lparr>db_index = e, schemas_index = Map.empty\<rparr>"

definition schema_of_index :: "'e sqlongo_index \<Rightarrow> string \<Rightarrow> jsval" where
  "schema_of_index st table =
     (case schemas_index st table of None \<Rightarrow> Undefined | Some schema \<Rightarrow> schema)"

text \<open>The values that a condition takes as true.\<close>

fun truthy :: "jsval \<Rightarrow> bool" where
  "truthy Undefined = False"
| "truthy Null = False"
| "truthy (Bool b) = b"
| "truthy (Num n) = (n \<noteq> 0)"
| "truthy (Str s) = (s \<noteq> [])"
| "truthy (Arr xs) = True"
| "truthy (Obj kvs) = True"

text \<open>
  \<open>v[k] = x\<close> on an object: an existing property keeps its place. An array that is given
  a named property is kept as the object of its indices and that property, which
  \<open>Object.keys\<close> and \<open>v[k]\<close> cannot tell from it.
\<close>

fun set_prop :: "jsval \<Rightarrow> string \<Rightarrow> jsval \<Rightarrow> jsval" where
  "set_prop (Obj kvs) k x =
     (if k \<in> set (map fst kvs)
      then Obj (map (\<lambda>(k', v). if k' = k then (k', x) else (k', v)) kvs)
      else Obj (kvs @ [(k, x)]))"
| "set_prop (Arr xs) k x = Obj (zip (index_keys (length xs)) xs @ [(k, x)])"
| "set_prop v k x = v"

definition checkAvailability :: "'e sqlongo_index \<Rightarrow> string \<Rightarrow> error + unit" where
  "checkAvailability st table =
     (if schemas_index st ''hasOwnProperty'' \<noteq> None
      then Inl (TypeError ''schemas.hasOwnProperty is not a function'')
      else if schemas_index st table = None
      then Inl (Error (''db.'' @ table @ '' is called before setting its schema''))
      else
        (case read_prop (schema_of_index st table) READY_KEY of
           Inl e \<Rightarrow> Inl e
         | Inr ready \<Rightarrow>
             if \<not> truthy ready
             then Inl (Error (''db.'' @ table @
                                '' is called before its schema is fully synchronized with database''))
             else Inr ()))"

text \<open>
  The \<open>get\<close> trap of \<open>index.js\<close>: four reserved keys read \<open>schemas[key]\<close>, \<open>raw\<close>
  gives the raw query function, every other key the table's operations.
\<close>

definition get_trap_index :: "string \<Rightarrow> proxy_value" where
  "get_trap_index key =
     (if key \<in> set [''inspect'', ''valueOf'', ''toString'', ''__proto__''] then SchemasEntry key
      else if key = ''raw'' then RawQuery
      else TableOperations key)"

definition define_sql :: "string \<Rightarrow> string \<Rightarrow> string" where
  "define_sql table columns =
     [CHR 0x0A] @ ''            create table if not exists '' @ table @ '' ('' @
     [CHR 0x0A] @ ''              '' @ columns @
     [CHR 0x0A] @ ''            )'' @
     [CHR 0x0A] @ ''          ''"

text \<open>
  \<open>define\<close> up to its \<open>await\<close>: the schema is stored and the creation statement built.
  Then the statement runs, and when it has succeeded the stored schema is marked ready.
\<close>

definition define_start ::
  "string \<Rightarrow> jsval \<Rightarrow> 'e sqlongo_index \<Rightarrow> (error + string) \<times> 'e sqlongo_index"
where
  "define_start table schema st =
     (if typeof schema \<noteq> ''object''
      then (Inl (Error (''db.'' @ table @ '': schema must be an object'')), st)
      else
        (let st1 = st\<lparr>schemas_index := (schemas_index st)(table \<mapsto> schema)\<rparr> in
         case Object_keys schema of
           Inl e \<Rightarrow> (Inl e, st1)
         | Inr keys \<Rightarrow>
             (Inr (define_sql table
                     (join '', '' (map (\<lambda>k. k @ '' '' @ toString (get_prop schema k)) keys))),
              st1)))"

definition define_finish ::
  "'e engine \<Rightarrow> string \<Rightarrow> string \<Rightarrow> 'e sqlongo_index \<Rightarrow> (error + jsval) \<times> 'e sqlongo_index"
where
  "define_finish exec table sql st =
     (case run_index exec (db_index st) sql [] of
        (Inl e, e') \<Rightarrow> (Inl e, st)
      | (Inr result, e') \<Rightarrow>
          (case schemas_index st table of
             None \<Rightarrow> (Inl (TypeError ''Cannot set property __ready__ of undefined''),
                      st\<lparr>db_index := e'\<rparr>)
           | Some schema \<Rightarrow>
               if schema = Null \<or> schema = Undefined
               then (Inl (TypeError ''Cannot set property __ready__ of undefined''),
                     st\<lparr>db_index := e'\<rparr>)
               else (Inr result,
                     st\<lparr>db_index := e',
                        schemas_index :=
                          (schemas_index st)(table \<mapsto> set_prop schema READY_KEY (Bool True))\<rparr>)))"

definition define_index ::
  "'e engine \<Rightarrow> string \<Rightarrow> jsval \<Rightarrow> 'e sqlongo_index \<Rightarrow> (error + jsval) \<times> 'e sqlongo_index"
where
  "define_index exec table schema st =
     (case define_start table schema st of
        (Inl e, st1) \<Rightarrow> (Inl e, st1)
      | (Inr sql, st1) \<Rightarrow> define_finish exec table sql st1)"

definition find_index ::
  "'e engine \<Rightarrow> string \<Rightarrow> jsval \<Rightarrow> jsval \<Rightarrow> jsval \<Rightarrow> 'e sqlongo_index \<Rightarrow>
     (error + jsval) \<times> 'e sqlongo_index"
where
  "find_index exec table criteriaObj0 limit0 offset0 st =
     (let criteriaObj = default_arg (Obj []) criteriaObj0;
          limit = default_arg (Num (- 1)) limit0;
          offset = default_arg (Num 0) offset0
      in case checkAvailability st table of
           Inl e \<Rightarrow> (Inl e, st)
         | Inr u \<Rightarrow>
             if typeof criteriaObj \<noteq> ''object''
             then (Inl (Error ''find: criteria should be an object''), st)
             else
               (case parseCriteria_index criteriaObj (schema_of_index st table) of
                  Inl e \<Rightarrow> (Inl e, st)
                | Inr (criteria, values) \<Rightarrow>
                    (let sql = statement (''select * from '' @ table @ '' '' @
                                            where_clause criteria @ '' limit ? offset ?'');
                         r = (if limit = Num 1 then get_index else all_index) exec (db_index st) sql
                               (values @ [limit, offset])
                     in (fst r, st\<lparr>db_index := snd r\<rparr>))))"

definition count_index ::
  "'e engine \<Rightarrow> string \<Rightarrow> jsval \<Rightarrow> 'e sqlongo_index \<Rightarrow> (error + jsval) \<times> 'e sqlongo_index"
where
  "count_index exec table criteriaObj0 st =
     (let criteriaObj = default_arg (Obj []) criteriaObj0
      in case checkAvailability st table of
           Inl e \<Rightarrow> (Inl e, st)
         | Inr u \<Rightarrow>
             if typeof criteriaObj \<noteq> ''object''
             then (Inl (Error ''count: criteria should be an object''), st)
             else
               (case parseCriteria_index criteriaObj (schema_of_index st table) of
                  Inl e \<Rightarrow> (Inl e, st)
                | Inr (criteria, values) \<Rightarrow>
                    (let sql = statement (''select count(*) count from '' @ table @ '' '' @
                                            where_clause criteria)
                     in case get_index exec (db_index st) sql values of
                          (Inl e, e') \<Rightarrow> (Inl e, st\<lparr>db_index := e'\<rparr>)
                        | (Inr row, e') \<Rightarrow> (read_prop row ''count'', st\<lparr>db_index := e'\<rparr>))))"

definition distinct_index ::
  "'e engine \<Rightarrow> string \<Rightarrow> jsval \<Rightarrow> jsval \<Rightarrow> jsval \<Rightarrow> 'e sqlongo_index \<Rightarrow>
     (error + jsval) \<times> 'e sqlongo_index"
where
  "distinct_index exec table column limit0 offset0 st =
     (let limit = default_arg (Num (- 1)) limit0;
          offset = default_arg (Num 0) offset0
      in case checkAvailability st table of
           Inl e \<Rightarrow> (Inl e, st)
         | Inr u \<Rightarrow>
             (case Object_keys (schema_of_index st table) of
                Inl e \<Rightarrow> (Inl e, st)
              | Inr keys \<Rightarrow>
                  if indexOf keys column = 0
                  then (Inl (Error (''distinct: column '' @ toString column @
                                      '' does not exist'')), st)
                  else
                    (let sql = statement (''select distinct '' @ toString column @ '' from '' @
                                            table @ '' limit ? offset ?'')
                     in case (if limit = Num 1 then get_index else all_index) exec (db_index st)
                               sql [limit, offset] of
                          (Inl e, e') \<Rightarrow> (Inl e, st\<lparr>db_index := e'\<rparr>)
                        | (Inr (Arr rows), e') \<Rightarrow>
                            (case read_props rows (toString column) of
                               Inl e \<Rightarrow> (Inl e, st\<lparr>db_index := e'\<rparr>)
                             | Inr vs \<Rightarrow> (Inr (Arr vs), st\<lparr>db_index := e'\<rparr>))
                        | (Inr row, e') \<Rightarrow>
                            (Inl (TypeError ''(intermediate value).map is not a function''),
                             st\<lparr>db_index := e'\<rparr>))))"

definition insert_index ::
  "'e engine \<Rightarrow> string \<Rightarrow> jsval \<Rightarrow> 'e sqlongo_index \<Rightarrow> (error + jsval) \<times> 'e sqlongo_index"
where
  "insert_index exec table row st =
     (case checkAvailability st table of
        Inl e \<Rightarrow> (Inl e, st)
      | Inr u \<Rightarrow>
          if typeof row \<noteq> ''object''
          then (Inl (Error ''insert: row should be an object''), st)
          else
            (case filteredKeys_index row (schema_of_index st table) of
               Inl e \<Rightarrow> (Inl e, st)
             | Inr keys \<Rightarrow>
                 (let values = map (get_prop row) keys;
                      placeholders = join '', '' (map (\<lambda>k. ''?'') keys);
                      sql = statement (''insert into '' @ table @ ''('' @ join '', '' keys @
                                         '') values('' @ placeholders @ '')'');
                      r = run_index exec (db_index st) sql values
                  in (fst r, st\<lparr>db_index := snd r\<rparr>))))"

definition remove_index ::
  "'e engine \<Rightarrow> string \<Rightarrow> jsval \<Rightarrow> jsval \<Rightarrow> jsval \<Rightarrow> 'e sqlongo_index \<Rightarrow>
     (error + jsval) \<times> 'e sqlongo_index"
where
  "remove_index exec table criteriaObj limit0 offset0 st =
     (let limit = default_arg (Num (- 1)) limit0;
          offset = default_arg (Num 0) offset0
      in case checkAvailability st table of
           Inl e \<Rightarrow> (Inl e, st)
         | Inr u \<Rightarrow>
             if typeof criteriaObj \<noteq> ''object''
             then (Inl (Error ''remove: criteria should be an object''), st)
             else
               (case parseCriteria_index criteriaObj (schema_of_index st table) of
                  Inl e \<Rightarrow> (Inl e, st)
                | Inr (criteria, values) \<Rightarrow>
                    (let sql = statement (''delete from '' @ table @
                                            '' where rowid in (select rowid from '' @ table @
                                            '' '' @ where_clause criteria @ '' limit ? offset ?)'');
                         r = run_index exec (db_index st) sql (values @ [limit, offset])
                     in (fst r, st\<lparr>db_index := snd r\<rparr>))))"

definition update_index ::
  "'e engine \<Rightarrow> string \<Rightarrow> jsval \<Rightarrow> jsval \<Rightarrow> 'e sqlongo_index \<Rightarrow>
     (error + jsval) \<times> 'e sqlongo_index"
where
  "update_index exec table criteriaObj row st =
     (case checkAvailability st table of
        Inl e \<Rightarrow> (Inl e, st)
      | Inr u \<Rightarrow>
          if typeof criteriaObj \<noteq> ''object''
          then (Inl (Error ''update: criteria should be an object''), st)
          else if typeof row \<noteq> ''object''
          then (Inl (Error ''update: row should be an object''), st)
          else
            (case parseCriteria_index criteriaObj (schema_of_index st table) of
               Inl e \<Rightarrow> (Inl e, st)
             | Inr (criteria, criteriaValues) \<Rightarrow>
                 (case filteredKeys_index row (schema_of_index st table) of
                    Inl e \<Rightarrow> (Inl e, st)
                  | Inr keys \<Rightarrow>
                      (let values = map (get_prop row) keys;
                           operations = join '', '' (map (\<lambda>k. k @ '' = ?'') keys);
                           sql = statement (''update '' @ table @ '' set '' @ operations @ '' '' @
                                              where_clause criteria);
                           r = run_index exec (db_index st) sql (values @ criteriaValues)
                       in (fst r, st\<lparr>db_index := snd r\<rparr>)))))"

section \<open>Calls in flight\<close>

text \<open>
  An async call of a table operation reads \<open>createTableTasks\<close> when it is invoked and is
  suspended on that promise; its body runs in a later turn of the event loop. A system is
  the handle with the calls invoked so far. Its events are the assignment of a schema, the
  invocation of an operation, the completion of a creation statement by sqlite3, and the
  event loop turning to a call. Each call records how many creation statements had been
  issued when it was invoked.
\<close>

datatype call =
    Find string jsval jsval jsval
  | Count string jsval jsval
  | Distinct string jsval jsval jsval jsval
  | Insert string jsval
  | Remove string jsval jsval jsval
  | Update string jsval jsval

fun body_of :: "'e engine \<Rightarrow> call \<Rightarrow> 'e sqlongo \<Rightarrow> (error + jsval) \<times> 'e sqlongo" where
  "body_of exec (Find table criteriaObj limit offset) = find_body exec table criteriaObj limit offset"
| "body_of exec (Count table column criteriaObj) = count_body exec table column criteriaObj"
| "body_of exec (Distinct table column criteriaObj limit offset) =
     distinct_body exec table column criteriaObj limit offset"
| "body_of exec (Insert table row) = insert_body exec table row"
| "body_of exec (Remove table criteriaObj limit offset) =
     remove_body exec table criteriaObj limit offset"
| "body_of exec (Update table criteriaObj row) = update_body exec table criteriaObj row"

text \<open>The operation that a call invokes, as the caller's handle runs it.\<close>

fun operation_of :: "'e engine \<Rightarrow> call \<Rightarrow> 'e sqlongo \<Rightarrow> jsval outcome \<times> 'e sqlongo" where
  "operation_of exec (Find table criteriaObj limit offset) = find_op exec table criteriaObj limit offset"
| "operation_of exec (Count table column criteriaObj) = count_op exec table column criteriaObj"
| "operation_of exec (Distinct table column criteriaObj limit offset) =
     distinct_op exec table column criteriaObj limit offset"
| "operation_of exec (Insert table row) = insert_op exec table row"
| "operation_of exec (Remove table criteriaObj limit offset) =
     remove_op exec table criteriaObj limit offset"
| "operation_of exec (Update table criteriaObj row) = update_op exec table criteriaObj row"

record async_call =
  awaited :: promise
  issued :: nat
  operation :: call
  settled :: "jsval outcome"

record 'e system =
  handle :: "'e sqlongo"
  calls :: "async_call list"

datatype event = Declare string jsval | Invoke call | Complete nat | Resume nat

definition start :: "'e \<Rightarrow> 'e system" where
  "start e = \<lparr>handle = Sqlongo e, calls = []\<rparr>"

definition resume :: "'e engine \<Rightarrow> nat \<Rightarrow> 'e system \<Rightarrow> 'e system" where
  "resume exec i sys =
     (if i < length (calls sys) \<and> settled (calls sys ! i) = Pending then
        (case promise_state (tasks (handle sys)) (awaited (calls sys ! i)) of
           Pending \<Rightarrow> sys
         | Rejected e \<Rightarrow> sys\<lparr>calls := (calls sys)[i := (calls sys ! i)\<lparr>settled := Rejected e\<rparr>]\<rparr>
         | Fulfilled u \<Rightarrow>
             (case body_of exec (operation (calls sys ! i)) (handle sys) of
                (Inl e, h) \<Rightarrow>
                  \<lparr>handle = h, calls = (calls sys)[i := (calls sys ! i)\<lparr>settled := Rejected e\<rparr>]\<rparr>
              | (Inr v, h) \<Rightarrow>
                  \<lparr>handle = h, calls = (calls sys)[i := (calls sys ! i)\<lparr>settled := Fulfilled v\<rparr>]\<rparr>))
      else sys)"

fun step :: "'e engine \<Rightarrow> 'e system \<Rightarrow> event \<Rightarrow> 'e system" where
  "step exec sys (Declare table schema) = sys\<lparr>handle := snd (set_trap table schema (handle sys))\<rparr>"
| "step exec sys (Invoke c) =
     sys\<lparr>calls := calls sys @
            [\<lparr>awaited = createTableTasks (handle sys), issued = length (tasks (handle sys)),
              operation = c, settled = Pending\<rparr>]\<rparr>"
| "step exec sys (Complete n) = sys\<lparr>handle := complete_task exec n (handle sys)\<rparr>"
| "step exec sys (Resume i) = resume exec i sys"

definition run_events :: "'e engine \<Rightarrow> event list \<Rightarrow> 'e system \<Rightarrow> 'e system" where
  "run_events exec evs sys = foldl (step exec) sys evs"

section \<open>What sqlite3 does with the statements\<close>

text \<open>
  The claims about the rows that \<open>find\<close> returns and \<open>remove\<close> deletes rest on what
  sqlite3 does with the two statements. That is stated as a property of the engine
  parameter, for the database \<open>e\<close>, a table, a where clause and its bound values:
  \<open>rows_of\<close> reads a table's rows in storage order and \<open>matches\<close> says which rows a
  where clause with its values selects. A negative \<open>LIMIT\<close> is no limit; a negative
  \<open>OFFSET\<close> is none.
\<close>

definition window :: "int \<Rightarrow> int \<Rightarrow> 'a list \<Rightarrow> 'a list" where
  "window limit offset rows =
     (if limit < 0 then drop (nat offset) rows else take (nat limit) (drop (nat offset) rows))"



section \<open>A small database for the examples\<close>

text \<open>
  An engine for the examples: it holds the rows of the one table \<open>test1\<close> and knows the
  statements that the examples issue, with the where clause \<open>id > ?\<close>,
  \<open>id = ?\<close> or none.
\<close>

definition example_matches :: "string \<Rightarrow> jsval list \<Rightarrow> jsval \<Rightarrow> bool" where
  "example_matches clause values row =
     (clause = [] \<or>
      clause = ''where (id > ?)'' \<and>
        (case get_prop row ''id'' of
           Num i \<Rightarrow> (case values of [Num v] \<Rightarrow> v < i | _ \<Rightarrow> False)
         | _ \<Rightarrow> False) \<or>
      clause = ''where (id = ?)'' \<and>
        (case values of [v] \<Rightarrow> get_prop row ''id'' = v | _ \<Rightarrow> False))"


definition example_exec :: "jsval list engine" where
  "example_exec e sql param =
     (if sql = create_table_sql ''test1'' ''id integer primary key, content varchar(100)''
      then Inr ([], e)
      else if sql = statement ''insert into test1(content) values(?)''
      then (case param of
              [v] \<Rightarrow> Inr ([], e @ [Obj [(''id'', Num (int (length e) + 1)), (''content'', v)]])
            | _ \<Rightarrow> Inl ''SQLITE_RANGE'')
      else if sql = statement ''select count(*) count from test1 where (id > ?)''
      then (case param of
              [v] \<Rightarrow>
                Inr ([Obj [(''count'',
                            Num (int (length (filter (example_matches ''where (id > ?)'' [v]) e))))]],
                     e)
            | _ \<Rightarrow> Inl ''SQLITE_RANGE'')
      else if sql = statement ''select * from test1  limit ? offset ?''
      then (case param of
              [Num limit, Num offset] \<Rightarrow> Inr (window limit offset e, e)
            | _ \<Rightarrow> Inl ''SQLITE_MISMATCH'')
      else if sql = statement ''select * from test1 where (id > ?) limit ? offset ?''
      then (case param of
              [v, Num limit, Num offset] \<Rightarrow>
                Inr (window limit offset (filter (example_matches ''where (id > ?)'' [v]) e), e)
            | _ \<Rightarrow> Inl ''SQLITE_MISMATCH'')
      else if sql = statement ''select * from test1 where (id = ?) limit ? offset ?''
      then (case param of
              [v, Num limit, Num offset] \<Rightarrow>
                Inr (window limit offset (filter (example_matches ''where (id = ?)'' [v]) e), e)
            | _ \<Rightarrow> Inl ''SQLITE_MISMATCH'')
      else if sql = statement
                ''delete from test1 where rowid in (select rowid from test1 where (id > ?) limit ? offset ?)''
      then (case param of
              [v, Num limit, Num offset] \<Rightarrow>
                Inr ([], filter (\<lambda>row. row \<notin> set (window limit offset
                                                       (filter (example_matches ''where (id > ?)'' [v])
                                                          e))) e)
            | _ \<Rightarrow> Inl ''SQLITE_MISMATCH'')
      else Inl ''SQLITE_ERROR'')"

definition example_schema :: jsval where
  "example_schema =
     Obj [(''id'', Str ''integer primary key''), (''content'', Str ''varchar(100)'')]"

definition example_row :: "int \<Rightarrow> jsval" where
  "example_row i = Obj [(''id'', Num i), (''content'', Str ''Hello, World!'')]"

text \<open>The handle after \<open>db.test1 = schema\<close> and the completion of its creation statement.\<close>

definition example_handle :: "jsval list \<Rightarrow> jsval list sqlongo" where
  "example_handle e =
     complete_task example_exec 0 (snd (set_trap ''test1'' example_schema (Sqlongo e)))"

text \<open>
  An engine that accepts every statement and returns no rows; its database is the log of
  the statements it was given, each with its parameters.
\<close>

definition recording :: "(string \<times> jsval list) list engine" where
  "recording e sql param = Inr ([], e @ [(sql, param)])"

section \<open>The barrier that a call waits for\<close>

text \<open>
  A promise covers the first \<open>n\<close> creation statements when, whatever their promises'
  states are, its own state is that of \<open>Promise.all\<close> of them. The invariant of a
  system: \<open>createTableTasks\<close> covers every creation statement issued so far, and the
  promise a call awaits covers those issued before the call was invoked.
\<close>

definition covers :: "promise \<Rightarrow> nat \<Rightarrow> bool" where
  "covers p n =
     (\<forall>ts. n \<le> length ts \<longrightarrow> promise_state ts p = all_state (map snd (take n ts)))"

definition barrier_invariant :: "'e system \<Rightarrow> bool" where
  "barrier_invariant sys =
     (covers (createTableTasks (handle sys)) (length (tasks (handle sys))) \<and>
      (\<forall>c \<in> set (calls sys). covers (awaited c) (issued c) \<and>
                               issued c \<le> length (tasks (handle sys))))"

text \<open>The example of the claim: a table is declared and \<open>insert\<close> is invoked at once.\<close>

definition declare_and_insert :: "event list" where
  "declare_and_insert =
     [Declare ''test1'' example_schema, Invoke (Insert ''test1'' (Obj [(''content'', Str ''x'')]))]"

text \<open>The placeholders of a statement text: its question marks.\<close>

definition placeholders :: "string \<Rightarrow> nat" where
  "placeholders sql = length (filter (\<lambda>c. c = CHR ''?'') sql)"

declare show_nat.simps [simp del]

section \<open>The criteria compiler of the oldest source file\<close>

text \<open>
  C1 (number and order of placeholders), at the oldest source file. For the criteria
  \<open>{id: {$in: [3, 4, 5]}}\<close> on the schema \<open>{id, content}\<close>, a criteria object with a
  recognized operator on a recognized column, its \<open>parseCriteria\<close> returns the fragment
  \<open>id in (3, 4, 5)\<close>, which has no placeholder, with the three parameters
  \<open>3, 4, 5\<close>: the claim asks for three placeholders.
\<close>

theorem parseCriteria_old_placeholder_mismatch:
  "parseCriteria_old (Obj [(''id'', Obj [(''$in'', Arr [Num 3, Num 4, Num 5])])])
     (Obj [(''id'', Str ''integer primary key''), (''content'', Str ''varchar(100)'')])
     = Inr (''id in (3, 4, 5)'', [Num 3, Num 4, Num 5])
   \<and> placeholders ''id in (3, 4, 5)'' = 0
   \<and> length [Num 3, Num 4, Num 5] = (3::nat)"
  by code_simp

text \<open>
  C2 (the fragment of one criterion), at the oldest source file. For the column
  \<open>content\<close> and the operator object \<open>{$in: ['a', 'b']}\<close>, whose operand is a sequence of
  two elements, its \<open>parseCriteria\<close> returns \<open>content in (a, b)\<close>: the elements
  themselves stand where the claim asks for the placeholder list \<open>(?, ?)\<close>, which the
  newest source file returns on the same input.
\<close>

theorem parseCriteria_old_sequence_operand:
  "parseCriteria_old (Obj [(''content'', Obj [(''$in'', Arr [Str ''a'', Str ''b''])])])
     (Obj [(''id'', Str ''integer primary key''), (''content'', Str ''varchar(100)'')])
     = Inr (''content in (a, b)'', [Str ''a'', Str ''b''])
   \<and> parseCriteria (Obj [(''content'', Obj [(''$in'', Arr [Str ''a'', Str ''b''])])])
     (Obj [(''id'', Str ''integer primary key''), (''content'', Str ''varchar(100)'')])
     = Inr (''content in (?, ?)'', [Str ''a'', Str ''b''])"
  by code_simp

section \<open>Operations on a table without a schema\<close>

text \<open>
  In \<open>index.js\<close> every operation on a table that has no schema is rejected by
  \<open>checkAvailability\<close> with the error that names the table.
\<close>

lemma checkAvailability_undeclared:
  assumes "schemas_index st ''hasOwnProperty'' = None" and "schemas_index st table = None"
  shows "checkAvailability st table =
           Inl (Error (''db.'' @ table @ '' is called before setting its schema''))"
  using assms by (simp add: checkAvailability_def)

lemma index_operations_undeclared:
  assumes "schemas_index st ''hasOwnProperty'' = None" and "schemas_index st table = None"
  shows "fst (find_index exec table criteriaObj limit offset st) =
           Inl (Error (''db.'' @ table @ '' is called before setting its schema''))"
    and "fst (count_index exec table criteriaObj st) =
           Inl (Error (''db.'' @ table @ '' is called before setting its schema''))"
    and "fst (distinct_index exec table column limit offset st) =
           Inl (Error (''db.'' @ table @ '' is called before setting its schema''))"
    and "fst (insert_index exec table row st) =
           Inl (Error (''db.'' @ table @ '' is called before setting its schema''))"
    and "fst (remove_index exec table criteriaObj limit offset st) =
           Inl (Error (''db.'' @ table @ '' is called before setting its schema''))"
    and "fst (update_index exec table criteriaObj row st) =
           Inl (Error (''db.'' @ table @ '' is called before setting its schema''))"
  using checkAvailability_undeclared [OF assms]
  by (simp_all add: find_index_def count_index_def distinct_index_def insert_index_def
        remove_index_def update_index_def Let_def)

text \<open>
  C7 (an operation on an undeclared table fails with the error that says so), at the
  newest source file. Its \<open>get\<close> trap hands out the operations of any table, and the
  operations read \<open>schemas[table]\<close> without a check: on a fresh handle,
  \<open>db.nosuch.find({})\<close> and \<open>db.nosuch.insert({content: 'x'})\<close> are rejected with the
  TypeError that \<open>Object.keys(undefined)\<close> throws inside \<open>filteredKeys\<close>. The same
  \<open>find\<close> on the handle of \<open>index.js\<close> is rejected with the error the claim asks for.
\<close>

theorem find_on_undeclared_table:
  "get_trap ''nosuch'' = TableOperations ''nosuch''
   \<and> fst (find_op recording ''nosuch'' (Obj []) Undefined Undefined (Sqlongo []))
     = Rejected (TypeError ''Cannot convert undefined or null to object'')
   \<and> fst (insert_op recording ''nosuch'' (Obj [(''content'', Str ''x'')]) (Sqlongo []))
     = Rejected (TypeError ''Cannot convert undefined or null to object'')
   \<and> fst (find_index recording ''nosuch'' (Obj []) Undefined Undefined (Sqlongo_index []))
     = Inl (Error ''db.nosuch is called before setting its schema'')"
  by code_simp

section \<open>Declaring a table\<close>

text \<open>
  C8 as the claim states it (a schema that is not a non-empty mapping is refused and no
  creation statement is issued) fails at the empty mapping: \<open>db.t = {}\<close> returns normally,
  stores the schema and issues a creation statement with no column.
\<close>

theorem set_trap_accepts_empty_schema:
  "fst (set_trap ''t'' (Obj []) (Sqlongo ())) = Inr True
   \<and> tasks (snd (set_trap ''t'' (Obj []) (Sqlongo ()))) = [(create_table_sql ''t'' [], Pending)]
   \<and> schemas (snd (set_trap ''t'' (Obj []) (Sqlongo ()))) ''t'' = Some (Obj [])"
  by (simp add: set_trap_def Sqlongo_def)

text \<open>
  C8, amended. The declaration checks \<open>typeof schema\<close> and nothing else. A schema whose
  \<open>typeof\<close> is not \<open>object\<close> is refused with the error \<open>db.<table>: schema must be an
  object\<close>, and the handle stays as it was: no schema stored, no creation statement issued.
  Every key/value mapping, the empty one included, is accepted: the declaration returns
  \<open>true\<close>, the schema is stored under the table's name, the creation statement is issued
  with its promise pending and joined to \<open>createTableTasks\<close>, and the database has not been
  touched when the declaration returns.
\<close>

theorem set_trap_checks_typeof_only:
  "(typeof schema \<noteq> ''object'' \<longrightarrow>
      set_trap table schema st =
        (Inl (Error (''db.'' @ table @ '': schema must be an object'')), st))
   \<and> fst (set_trap table (Obj kvs) st) = Inr True
   \<and> schemas (snd (set_trap table (Obj kvs) st)) = (schemas st)(table \<mapsto> Obj kvs)
   \<and> tasks (snd (set_trap table (Obj kvs) st)) =
        tasks st @
        [(create_table_sql table
            (join '', '' (map (\<lambda>k. k @ '' '' @ toString (get_prop (Obj kvs) k)) (map fst kvs))),
          Pending)]
   \<and> createTableTasks (snd (set_trap table (Obj kvs) st)) =
        Promise_all [createTableTasks st, Run_promise (length (tasks st))]
   \<and> db (snd (set_trap table (Obj kvs) st)) = db st"
  by (simp add: set_trap_def Let_def)

theorem set_trap_checks_typeof_only_witness:
  "typeof (Num 5) \<noteq> ''object''
   \<and> set_trap ''test1'' (Num 5) (Sqlongo ()) =
       (Inl (Error ''db.test1: schema must be an object''), Sqlongo ())
   \<and> fst (set_trap ''test1'' (Obj [(''id'', Str ''int''), (''content'', Str ''text'')])
            (Sqlongo ())) = Inr True
   \<and> tasks (snd (set_trap ''test1'' (Obj [(''id'', Str ''int''), (''content'', Str ''text'')])
              (Sqlongo ()))) =
       [(create_table_sql ''test1'' ''id int, content text'', Pending)]"
  using set_trap_checks_typeof_only
          [of "Num 5" "''test1''" "Sqlongo ()" "[(''id'', Str ''int''), (''content'', Str ''text'')]"]
  by (simp add: Sqlongo_def)

section \<open>The column check of distinct\<close>

lemma distinct_first_column:
  assumes "promise_state (tasks st) (createTableTasks st) = Fulfilled ()"
      and "typeof (default_arg (Obj []) criteriaObj) = ''object''"
      and "Object_keys (schema_of st table) = Inr (column # columns)"
  shows "distinct_op exec table (Str column) criteriaObj limit offset st =
           (Rejected (Error (''distinct: column '' @ column @ '' does not exist'')), st)"
  using assms
  by (simp add: distinct_op_def await_createTableTasks_def distinct_body_def indexOf_def Let_def)

text \<open>
  C9 (\<open>distinct\<close> fails exactly for a column that is not in the schema). The check
  is \<open>!Object.keys(schemas[table]).indexOf(column)\<close>, which is true exactly when the
  index is \<open>0\<close>. On the schema \<open>{id, content}\<close>, \<open>distinct('id')\<close> is rejected with
  \<open>distinct: column id does not exist\<close> although \<open>id\<close> is a column, and
  \<open>distinct('nosuch')\<close> passes the check: its statement reaches the database.
\<close>

theorem distinct_rejects_first_column:
  "fst (distinct_op recording ''test1'' (Str ''id'') Undefined Undefined Undefined
          (complete_task recording 0 (snd (set_trap ''test1'' example_schema (Sqlongo [])))))
     = Rejected (Error ''distinct: column id does not exist'')
   \<and> fst (distinct_op recording ''test1'' (Str ''nosuch'') Undefined Undefined Undefined
          \<lparr>db = [], tasks = [], createTableTasks = Promise_resolve,
            schemas = [''test1'' \<mapsto> example_schema]\<rparr>)
     = Fulfilled (Arr [])
   \<and> db (snd (distinct_op recording ''test1'' (Str ''nosuch'') Undefined Undefined Undefined
          \<lparr>db = [], tasks = [], createTableTasks = Promise_resolve,
            schemas = [''test1'' \<mapsto> example_schema]\<rparr>))
     = [(statement ''select distinct nosuch from test1  limit ? offset ?'', [Num (- 1), Num 0])]"
  by code_simp

section \<open>The arguments of count\<close>

lemma count_body_criteria_first:
  "typeof criteria = ''object'' \<Longrightarrow>
     count_body exec table criteria other = count_body exec table (Str ''*'') criteria"
  by (rule ext, cases criteria) (simp_all add: count_body_def default_arg_def)

text \<open>
  C10. When the first argument of \<open>count\<close> is an object, it is taken as the criteria and
  the column is \<open>*\<close>, whatever the second argument is: \<open>count(criteria)\<close> is
  \<open>count('*', criteria)\<close>, in its result and in what it does to the handle.
\<close>

theorem count_criteria_first:
  "typeof criteria = ''object'' \<Longrightarrow>
     count_op exec table criteria other st = count_op exec table (Str ''*'') criteria st"
  by (simp add: count_op_def count_body_criteria_first)

theorem count_criteria_first_witness:
  "typeof (Obj [(''id'', Obj [(''$gt'', Num 1)])]) = ''object''
   \<and> count_op example_exec ''test1'' (Obj [(''id'', Obj [(''$gt'', Num 1)])]) Undefined
         (example_handle (map example_row [1, 2, 3, 4]))
     = count_op example_exec ''test1'' (Str ''*'') (Obj [(''id'', Obj [(''$gt'', Num 1)])])
         (example_handle (map example_row [1, 2, 3, 4]))
   \<and> fst (count_op example_exec ''test1'' (Str ''*'') (Obj [(''id'', Obj [(''$gt'', Num 1)])])
         (example_handle (map example_row [1, 2, 3, 4]))) = Fulfilled (Num 3)"
proof -
  have t: "typeof (Obj [(''id'', Obj [(''$gt'', Num 1)])]) = ''object''"
    by simp
  have v: "fst (count_op example_exec ''test1'' (Str ''*'') (Obj [(''id'', Obj [(''$gt'', Num 1)])])
                 (example_handle (map example_row [1, 2, 3, 4]))) = Fulfilled (Num 3)"
    by code_simp
  show ?thesis
    using t v count_criteria_first [OF t] by simp
qed

section \<open>The example database\<close>

lemma example_handle_ready:
  "promise_state (tasks (example_handle e)) (createTableTasks (example_handle e)) = Fulfilled ()"
  "db (example_handle e) = e"
  "schema_of (example_handle e) ''test1'' = example_schema"
  by (simp_all add: example_handle_def complete_task_def set_trap_def Sqlongo_def Let_def
        example_schema_def run_def example_exec_def schema_of_def)







section \<open>The key filter on the write and read paths\<close>

lemma indexOf_from_range: "indexOf_from i ks v = - 1 \<or> i \<le> indexOf_from i ks v"
proof (induction ks arbitrary: i)
  case Nil
  show ?case by simp
next
  case (Cons k ks)
  from Cons.IH [of "i + 1"] show ?case by auto
qed

lemma indexOf_from_absent: "0 \<le> i \<Longrightarrow> (indexOf_from i ks (Str k) = - 1) = (k \<notin> set ks)"
proof (induction ks arbitrary: i)
  case Nil
  show ?case by simp
next
  case (Cons a ks)
  then show ?case by auto
qed

lemma indexOf_absent: "(indexOf ks (Str k) = - 1) = (k \<notin> set ks)"
  by (simp add: indexOf_def indexOf_from_absent)

lemma indexOf_first: "(indexOf ks v = 0) = (\<exists>k rest. ks = k # rest \<and> v = Str k)"
proof (cases ks)
  case Nil
  then show ?thesis by (simp add: indexOf_def)
next
  case (Cons k rest)
  from indexOf_from_range [of 1 rest v] have "indexOf_from 1 rest v \<noteq> 0"
    by auto
  with Cons show ?thesis
    by (auto simp: indexOf_def)
qed

lemma filteredKeys_Obj:
  "Object_keys schema = Inr trusted \<Longrightarrow>
     filteredKeys (Obj kvs) schema = Inr (filter (\<lambda>k. k \<in> set trusted) (map fst kvs))"
  by (simp add: filteredKeys_def indexOf_absent)

lemma filter_keys_of_kept:
  "filter P (map fst (filter (\<lambda>(k, v). P k) kvs)) = filter P (map fst kvs)"
  by (induction kvs) auto

lemma map_of_kept: "P k \<Longrightarrow> map_of (filter (\<lambda>(k, v). P k) kvs) k = map_of kvs k"
  by (induction kvs) auto

lemma get_prop_kept:
  "P k \<Longrightarrow> get_prop (Obj (filter (\<lambda>(k, v). P k) kvs)) k = get_prop (Obj kvs) k"
  by (simp add: map_of_kept)

lemma column_loop_same_props:
  "(\<And>k. k \<in> set keys \<Longrightarrow> get_prop c k = get_prop c' k) \<Longrightarrow>
     column_loop c keys acc = column_loop c' keys acc"
proof (induction keys arbitrary: acc)
  case Nil
  show ?case by simp
next
  case (Cons k keys)
  obtain criteria vals where acc: "acc = (criteria, vals)"
    by (cases acc)
  from Cons.prems have k: "get_prop c k = get_prop c' k"
    by simp
  from Cons.prems have rest: "column_loop c keys a = column_loop c' keys a" for a
    by (intro Cons.IH) simp
  show ?case
    by (simp add: acc k rest Let_def split: sum.split)
qed

lemma parseCriteria_kept:
  assumes "Object_keys schema = Inr trusted"
  shows "parseCriteria (Obj (filter (\<lambda>(k, v). k \<in> set trusted) kvs)) schema =
           parseCriteria (Obj kvs) schema"
proof -
  let ?kept = "filter (\<lambda>(k, v). k \<in> set trusted) kvs"
  let ?keys = "filter (\<lambda>k. k \<in> set trusted) (map fst kvs)"
  have keys: "filteredKeys (Obj ?kept) schema = Inr ?keys" "filteredKeys (Obj kvs) schema = Inr ?keys"
    using assms by (simp_all add: filteredKeys_Obj filter_keys_of_kept)
  have "column_loop (Obj ?kept) ?keys ([], []) = column_loop (Obj kvs) ?keys ([], [])"
    by (rule column_loop_same_props) (simp add: map_of_kept)
  with keys show ?thesis
    by (simp add: parseCriteria_def)
qed

lemma filteredKeys_kept:
  assumes "Object_keys schema = Inr trusted"
  shows "filteredKeys (Obj (filter (\<lambda>(k, v). k \<in> set trusted) kvs)) schema =
           filteredKeys (Obj kvs) schema"
  using assms by (simp add: filteredKeys_Obj filter_keys_of_kept)

lemma find_first: "List.find P xs = (case filter P xs of [] \<Rightarrow> None | x # _ \<Rightarrow> Some x)"
  by (induction xs) auto

lemma filteredKeys_index_unknown:
  assumes "Object_keys schema = Inr trusted"
      and "filter (\<lambda>k. k \<notin> set trusted) (map fst kvs) = k # others"
      and "k \<noteq> []"
  shows "filteredKeys_index (Obj kvs) schema = Inl (Error (''no such column: '' @ k))"
  using assms by (simp add: filteredKeys_index_def indexOf_absent find_first)

lemma parseCriteria_index_unknown:
  assumes "Object_keys schema = Inr trusted"
      and "filter (\<lambda>k. k \<notin> set trusted) (map fst kvs) = k # others"
      and "k \<noteq> []"
  shows "parseCriteria_index (Obj kvs) schema = Inl (Error (''no such column: '' @ k))"
  using filteredKeys_index_unknown [OF assms] by (simp add: parseCriteria_index_def)

lemma await_same_body:
  "body st = body' st \<Longrightarrow> await_createTableTasks st body = await_createTableTasks st body'"
  by (simp add: await_createTableTasks_def split: outcome.split)


text \<open>
  C3 as the claim states it (the filter throws on the write paths and drops on the read
  paths) fails in both source files, each of which has one filter for all its paths. In
  the newest file \<open>insert\<close> with the unknown key \<open>bogus\<close> does not fail: the key is
  dropped and \<open>insert into test1(content) values(?)\<close> runs. In \<open>index.js\<close>
  \<open>find\<close> with the unknown column \<open>bogus\<close> fails with \<open>no such column: bogus\<close>.
\<close>

theorem key_filter_not_split_by_path:
  "fst (insert_op recording ''test1'' (Obj [(''bogus'', Num 1), (''content'', Str ''x'')])
          (complete_task recording 0 (snd (set_trap ''test1'' example_schema (Sqlongo [])))))
     = Fulfilled Undefined
   \<and> db (snd (insert_op recording ''test1'' (Obj [(''bogus'', Num 1), (''content'', Str ''x'')])
          (complete_task recording 0 (snd (set_trap ''test1'' example_schema (Sqlongo []))))))
     = [(create_table_sql ''test1'' ''id integer primary key, content varchar(100)'', []),
        (statement ''insert into test1(content) values(?)'', [Str ''x''])]
   \<and> fst (find_index recording ''test1'' (Obj [(''bogus'', Num 1)]) Undefined Undefined
          (snd (define_index recording ''test1'' example_schema (Sqlongo_index []))))
     = Inl (Error ''no such column: bogus'')"
  by code_simp


text \<open>
  C3, amended. Each source file applies one key filter to its write and read paths alike.
  In the newest file the filter drops: a key of an \<open>insert\<close> or \<open>update\<close> row and
  a column of a \<open>find\<close>, \<open>count\<close>, \<open>distinct\<close>, \<open>remove\<close> or \<open>update\<close>
  criteria object that is not a key of the schema is silently omitted, the operation being
  the operation on the object without those keys. In \<open>index.js\<close> the filter throws: when
  a row of \<open>insert\<close> or \<open>update\<close>, or a criteria object of \<open>find\<close>, \<open>count\<close>,
  \<open>remove\<close> or \<open>update\<close>, has a key that is not a key of the stored schema object,
  the operation fails with \<open>no such column: k\<close> for the first such key \<open>k\<close>, provided
  \<open>k\<close> is not the empty string, and the handle stays as it was.
\<close>

theorem key_filter_one_policy_per_file:
  assumes trusted: "Object_keys (schema_of st table) = Inr trusted"
      and kept: "kept = filter (\<lambda>(k, v). k \<in> set trusted) kvs"
      and avail: "checkAvailability sti table = Inr ()"
      and trusted_i: "Object_keys (schema_of_index sti table) = Inr trusted_i"
      and unknown: "filter (\<lambda>k. k \<notin> set trusted_i) (map fst kvs) = k # others"
      and named: "k \<noteq> []"
      and other: "typeof other = ''object''"
      and parsed: "parseCriteria_index other (schema_of_index sti table) = Inr compiled"
  shows "insert_op exec table (Obj kvs) st = insert_op exec table (Obj kept) st
       \<and> update_op exec table criteriaObj (Obj kvs) st = update_op exec table criteriaObj (Obj kept) st
       \<and> find_op exec table (Obj kvs) limit offset st = find_op exec table (Obj kept) limit offset st
       \<and> count_op exec table column (Obj kvs) st = count_op exec table column (Obj kept) st
       \<and> distinct_op exec table column (Obj kvs) limit offset st =
           distinct_op exec table column (Obj kept) limit offset st
       \<and> remove_op exec table (Obj kvs) limit offset st = remove_op exec table (Obj kept) limit offset st
       \<and> update_op exec table (Obj kvs) row st = update_op exec table (Obj kept) row st
       \<and> insert_index exec_i table (Obj kvs) sti = (Inl (Error (''no such column: '' @ k)), sti)
       \<and> update_index exec_i table other (Obj kvs) sti =
           (Inl (Error (''no such column: '' @ k)), sti)
       \<and> find_index exec_i table (Obj kvs) limit offset sti =
           (Inl (Error (''no such column: '' @ k)), sti)
       \<and> count_index exec_i table (Obj kvs) sti = (Inl (Error (''no such column: '' @ k)), sti)
       \<and> remove_index exec_i table (Obj kvs) limit offset sti =
           (Inl (Error (''no such column: '' @ k)), sti)
       \<and> update_index exec_i table (Obj kvs) other sti =
           (Inl (Error (''no such column: '' @ k)), sti)"
proof -
  note pc = parseCriteria_kept [OF trusted, of kvs, folded kept]
  note fk = filteredKeys_kept [OF trusted, of kvs, folded kept]
  have gp: "map (get_prop (Obj kept)) (filter (\<lambda>k. k \<in> set trusted) (map fst kvs)) =
            map (get_prop (Obj kvs)) (filter (\<lambda>k. k \<in> set trusted) (map fst kvs))"
    unfolding kept by (rule map_cong) (simp_all add: map_of_kept)
  note fko = filteredKeys_Obj [OF trusted, of kvs]
  have p1: "insert_op exec table (Obj kvs) st = insert_op exec table (Obj kept) st"
    unfolding insert_op_def
    by (rule await_same_body) (simp add: insert_body_def fk fko gp Let_def)
  have p2: "update_op exec table criteriaObj (Obj kvs) st =
            update_op exec table criteriaObj (Obj kept) st"
    unfolding update_op_def
    by (rule await_same_body) (simp add: update_body_def fk fko gp Let_def split: sum.split)
  have p3: "find_op exec table (Obj kvs) limit offset st =
            find_op exec table (Obj kept) limit offset st"
    unfolding find_op_def
    by (rule await_same_body)
       (simp add: find_body_def pc default_arg_def Let_def split: sum.split bool.split)
  have p4: "count_op exec table column (Obj kvs) st = count_op exec table column (Obj kept) st"
    unfolding count_op_def
    by (rule await_same_body)
       (simp add: count_body_def pc default_arg_def Let_def split: sum.split bool.split)
  have p5: "distinct_op exec table column (Obj kvs) limit offset st =
            distinct_op exec table column (Obj kept) limit offset st"
    unfolding distinct_op_def
    by (rule await_same_body)
       (simp add: distinct_body_def pc default_arg_def Let_def split: sum.split bool.split)
  have p6: "remove_op exec table (Obj kvs) limit offset st =
            remove_op exec table (Obj kept) limit offset st"
    unfolding remove_op_def
    by (rule await_same_body)
       (simp add: remove_body_def pc default_arg_def Let_def split: sum.split bool.split)
  have p7: "update_op exec table (Obj kvs) row st = update_op exec table (Obj kept) row st"
    unfolding update_op_def
    by (rule await_same_body)
       (simp add: update_body_def pc default_arg_def Let_def split: sum.split bool.split)
  note fi = filteredKeys_index_unknown [OF trusted_i unknown named]
  note pi = parseCriteria_index_unknown [OF trusted_i unknown named]
  have s1: "insert_index exec_i table (Obj kvs) sti = (Inl (Error (''no such column: '' @ k)), sti)"
    by (simp add: insert_index_def avail fi)
  have s2: "update_index exec_i table other (Obj kvs) sti =
            (Inl (Error (''no such column: '' @ k)), sti)"
    by (simp add: update_index_def avail other parsed fi split: prod.split)
  have s3: "find_index exec_i table (Obj kvs) limit offset sti =
            (Inl (Error (''no such column: '' @ k)), sti)"
    by (simp add: find_index_def avail pi default_arg_def)
  have s4: "count_index exec_i table (Obj kvs) sti = (Inl (Error (''no such column: '' @ k)), sti)"
    by (simp add: count_index_def avail pi default_arg_def)
  have s5: "remove_index exec_i table (Obj kvs) limit offset sti =
            (Inl (Error (''no such column: '' @ k)), sti)"
    by (simp add: remove_index_def avail pi default_arg_def)
  have s6: "update_index exec_i table (Obj kvs) other sti =
            (Inl (Error (''no such column: '' @ k)), sti)"
    by (simp add: update_index_def avail other pi)
  from p1 p2 p3 p4 p5 p6 p7 s1 s2 s3 s4 s5 s6 show ?thesis
    by (intro conjI)
qed


theorem key_filter_one_policy_per_file_witness:
  "Object_keys (schema_of (example_handle []) ''test1'') = Inr [''id'', ''content'']
   \<and> [(''content'', Str ''x'')] =
       filter (\<lambda>(k, v). k \<in> set [''id'', ''content''])
         [(''bogus'', Num 1), (''content'', Str ''x'')]
   \<and> checkAvailability (snd (define_index recording ''test1'' example_schema (Sqlongo_index [])))
         ''test1'' = Inr ()
   \<and> Object_keys
         (schema_of_index (snd (define_index recording ''test1'' example_schema (Sqlongo_index [])))
            ''test1'')
       = Inr [''id'', ''content'', ''__ready__'']
   \<and> filter (\<lambda>k. k \<notin> set [''id'', ''content'', ''__ready__''])
         (map fst [(''bogus'', Num 1), (''content'', Str ''x'')]) = [''bogus'']
   \<and> ''bogus'' \<noteq> []
   \<and> typeof (Obj []) = ''object''
   \<and> parseCriteria_index (Obj [])
         (schema_of_index (snd (define_index recording ''test1'' example_schema (Sqlongo_index [])))
            ''test1'')
       = Inr ([], [])
   \<and> insert_op example_exec ''test1'' (Obj [(''bogus'', Num 1), (''content'', Str ''x'')])
         (example_handle [])
       = insert_op example_exec ''test1'' (Obj [(''content'', Str ''x'')]) (example_handle [])
   \<and> db (snd (insert_op example_exec ''test1'' (Obj [(''content'', Str ''x'')])
                 (example_handle [])))
       = [Obj [(''id'', Num 1), (''content'', Str ''x'')]]
   \<and> insert_index recording ''test1'' (Obj [(''bogus'', Num 1), (''content'', Str ''x'')])
         (snd (define_index recording ''test1'' example_schema (Sqlongo_index [])))
       = (Inl (Error ''no such column: bogus''),
          snd (define_index recording ''test1'' example_schema (Sqlongo_index [])))"
proof -
  let ?h = "example_handle []"
  let ?hi = "snd (define_index recording ''test1'' example_schema (Sqlongo_index []))"
  let ?kvs = "[(''bogus'', Num 1), (''content'', Str ''x'')]"
  have trusted: "Object_keys (schema_of ?h ''test1'') = Inr [''id'', ''content'']"
    unfolding example_handle_ready by code_simp
  have kept: "[(''content'', Str ''x'')] = filter (\<lambda>(k, v). k \<in> set [''id'', ''content'']) ?kvs"
    by simp
  have avail: "checkAvailability ?hi ''test1'' = Inr ()"
    by code_simp
  have trusted_i: "Object_keys (schema_of_index ?hi ''test1'') =
                     Inr [''id'', ''content'', ''__ready__'']"
    by code_simp
  have unknown: "filter (\<lambda>k. k \<notin> set [''id'', ''content'', ''__ready__'']) (map fst ?kvs) =
                   ''bogus'' # []"
    by simp
  have named: "''bogus'' \<noteq> []"
    by simp
  have other: "typeof (Obj []) = ''object''"
    by simp
  have parsed: "parseCriteria_index (Obj []) (schema_of_index ?hi ''test1'') = Inr ([], [])"
    by code_simp
  have inserted: "db (snd (insert_op example_exec ''test1'' (Obj [(''content'', Str ''x'')]) ?h)) =
                    [Obj [(''id'', Num 1), (''content'', Str ''x'')]]"
    by code_simp
  note policy = key_filter_one_policy_per_file
                  [OF trusted kept avail trusted_i unknown named other parsed]
  from policy [where exec = example_exec]
  have permissive: "insert_op example_exec ''test1'' (Obj ?kvs) ?h =
                      insert_op example_exec ''test1'' (Obj [(''content'', Str ''x'')]) ?h"
    by (rule conjunct1)
  from policy [where exec_i = recording]
  have strict: "insert_index recording ''test1'' (Obj ?kvs) ?hi =
                  (Inl (Error (''no such column: '' @ ''bogus'')), ?hi)"
    by blast
  from permissive strict trusted kept avail trusted_i unknown named other parsed inserted
  show ?thesis
    by simp
qed

section \<open>The criteria compiler of the newest source file\<close>

text \<open>
  The newest source file (and \<open>index.js\<close>, whose loops are the same) joins one \<open>?\<close>
  per element of an array operand. When no column name of the schema holds a question
  mark, the fragment it returns has as many placeholders as it returns parameters. A
  scalar criterion compiles to \<open>column = ?\<close> with the scalar, and a recognized operator
  with an array operand to the parenthesized list of one \<open>?\<close> per element with the
  elements. A criterion that is \<open>null\<close> is taken for an operator object, as its
  \<open>typeof\<close> is \<open>object\<close>, and \<open>Object.keys\<close> throws.
\<close>

lemma placeholders_append [simp]: "placeholders (a @ b) = placeholders a + placeholders b"
  by (simp add: placeholders_def)

lemma placeholders_Nil [simp]: "placeholders [] = 0"
  by (simp add: placeholders_def)

lemma placeholders_Cons [simp]:
  "placeholders (c # s) = (if c = CHR ''?'' then 1 else 0) + placeholders s"
  by (simp add: placeholders_def)

lemma placeholders_join:
  "placeholders sep = 0 \<Longrightarrow> placeholders (join sep xs) = sum_list (map placeholders xs)"
  by (induction sep xs rule: join.induct) simp_all

lemma placeholders_marks: "placeholders (join '', '' (map (\<lambda>k. ''?'') xs)) = length xs"
  by (induction xs rule: induct_list012) simp_all

lemma placeholders_operator: "placeholders (toString (get_prop CRITERION_KEYS k)) = 0"
  by (simp add: CRITERION_KEYS_def)

lemma placeholders_free: "(placeholders s = 0) = (CHR ''?'' \<notin> set s)"
  by (induction s) simp_all

lemma criterion_loop_placeholders:
  assumes "placeholders column = 0"
      and "sum_list (map placeholders (fst acc)) = length (snd acc)"
  shows "sum_list (map placeholders (fst (criterion_loop column criterion ks acc))) =
           length (snd (criterion_loop column criterion ks acc))"
  using assms(2)
proof (induction ks arbitrary: acc)
  case Nil
  then show ?case by simp
next
  case (Cons k ks)
  obtain criteria vals where acc: "acc = (criteria, vals)"
    by (cases acc)
  have marks: "placeholders (join '', '' (map (\<lambda>k. ''?'') (elements v))) = length (elements v)"
    for v
    by (rule placeholders_marks)
  show ?case
    unfolding acc criterion_loop.simps
    by (rule Cons.IH)
       (use Cons.prems assms(1) in \<open>simp add: acc Let_def placeholders_operator marks\<close>)
qed


lemma column_loop_placeholders:
  assumes "column_loop criteriaObject keys acc = Inr result"
      and "\<And>column. column \<in> set keys \<Longrightarrow> placeholders column = 0"
      and "sum_list (map placeholders (fst acc)) = length (snd acc)"
  shows "sum_list (map placeholders (fst result)) = length (snd result)"
  using assms
proof (induction keys arbitrary: acc)
  case Nil
  then show ?case by simp
next
  case (Cons column keys)
  obtain criteria vals where acc: "acc = (criteria, vals)"
    by (cases acc)
  from Cons.prems(2) have column: "placeholders column = 0"
    by simp
  let ?criterion = "get_prop criteriaObject column"
  show ?case
  proof (cases "typeof ?criterion = ''object''")
    case True
    with Cons.prems(1) obtain ks where
      ks: "filteredKeys ?criterion CRITERION_KEYS = Inr ks" and
      rest: "column_loop criteriaObject keys (criterion_loop column ?criterion ks (criteria, vals)) =
               Inr result"
      by (auto simp: acc Let_def split: sum.splits)
    from Cons.prems(3) have "sum_list (map placeholders (fst (criteria, vals))) =
                               length (snd (criteria, vals))"
      by (simp add: acc)
    note inv = criterion_loop_placeholders [OF column this, of ?criterion ks]
    show ?thesis
      by (rule Cons.IH [OF rest _ inv]) (simp add: Cons.prems(2))
  next
    case False
    with Cons.prems(1) have
      rest: "column_loop criteriaObject keys (criteria @ [column @ '' = ?''], vals @ [?criterion]) =
               Inr result"
      by (simp add: acc Let_def)
    from Cons.prems(3) column
    have inv: "sum_list (map placeholders
                           (fst (criteria @ [column @ '' = ?''], vals @ [?criterion]))) =
               length (snd (criteria @ [column @ '' = ?''], vals @ [?criterion]))"
      by (simp add: acc)
    show ?thesis
      by (rule Cons.IH [OF rest _ inv]) (simp add: Cons.prems(2))
  qed
qed

lemma filteredKeys_trusted:
  assumes "filteredKeys untrusted trusted = Inr keys" and "Object_keys trusted = Inr ks"
  shows "set keys \<subseteq> set ks"
  using assms by (auto simp: filteredKeys_def indexOf_absent split: sum.splits)

lemma parseCriteria_placeholders:
  assumes "parseCriteria criteriaObject schemaObject = Inr (fragment, vals)"
      and "Object_keys schemaObject = Inr columns"
      and "\<And>column. column \<in> set columns \<Longrightarrow> CHR ''?'' \<notin> set column"
  shows "placeholders fragment = length vals"
proof -
  from assms(1) obtain keys criteria where
    keys: "filteredKeys criteriaObject schemaObject = Inr keys" and
    loop: "column_loop criteriaObject keys ([], []) = Inr (criteria, vals)" and
    fragment: "fragment = join '' and '' criteria"
    by (auto simp: parseCriteria_def split: sum.splits)
  from filteredKeys_trusted [OF keys assms(2)] assms(3)
  have free: "placeholders column = 0" if "column \<in> set keys" for column
    using that by (auto simp: placeholders_free)
  have "sum_list (map placeholders (fst ([], []))) = length (snd ([], []) :: jsval list)"
    by simp
  with loop free
  have "sum_list (map placeholders (fst (criteria, vals))) = length (snd (criteria, vals))"
    by (rule column_loop_placeholders)
  then show ?thesis
    by (simp add: fragment placeholders_join)
qed

lemma parseCriteria_scalar:
  assumes "Object_keys schemaObject = Inr columns" and "column \<in> set columns"
      and "typeof v \<noteq> ''object''"
  shows "parseCriteria (Obj [(column, v)]) schemaObject = Inr (column @ '' = ?'', [v])"
  using assms by (simp add: parseCriteria_def filteredKeys_def indexOf_absent Let_def)

lemma recognized_operator:
  "filteredKeys (Obj [(operator, operand)]) CRITERION_KEYS =
     Inr (if operator \<in> set [''$like'', ''$glob'', ''$gt'', ''$lt'', ''$gte'', ''$lte'', ''$ne'',
                               ''$eq'', ''$not'', ''$in'']
          then [operator] else [])"
  by (simp add: filteredKeys_def indexOf_absent CRITERION_KEYS_def)

lemma parseCriteria_sequence_operand:
  assumes "Object_keys schemaObject = Inr columns" and "column \<in> set columns"
      and "operator \<in> set [''$like'', ''$glob'', ''$gt'', ''$lt'', ''$gte'', ''$lte'', ''$ne'',
                             ''$eq'', ''$not'', ''$in'']"
  shows "parseCriteria (Obj [(column, Obj [(operator, Arr elems)])]) schemaObject =
           Inr (column @ '' '' @ toString (get_prop CRITERION_KEYS operator) @ '' ('' @
                  join '', '' (map (\<lambda>k. ''?'') elems) @ '')'',
                elems)"
proof -
  from assms(3) have "filteredKeys (Obj [(operator, Arr elems)]) CRITERION_KEYS = Inr [operator]"
    by (simp only: recognized_operator if_True)
  with assms(1,2) show ?thesis
    by (simp add: parseCriteria_def
          filteredKeys_def [of "Obj [(column, Obj [(operator, Arr elems)])]"]
          indexOf_absent Let_def)
qed

lemma parseCriteria_null_criterion:
  assumes "Object_keys schemaObject = Inr columns" and "column \<in> set columns"
  shows "parseCriteria (Obj [(column, Null)]) schemaObject =
           Inl (TypeError ''Cannot convert undefined or null to object'')"
  using assms
  by (simp add: parseCriteria_def filteredKeys_def indexOf_absent Let_def CRITERION_KEYS_def)

section \<open>What find returns\<close>














section \<open>What remove deletes\<close>




section \<open>The readiness barrier\<close>

lemma barrier_invariant_pairs:
  "barrier_invariant sys =
     (covers (createTableTasks (handle sys)) (length (tasks (handle sys))) \<and>
      (\<forall>c \<in> set (map (\<lambda>c. (awaited c, issued c)) (calls sys)).
          covers (fst c) (snd c) \<and> snd c \<le> length (tasks (handle sys))))"
  by (simp add: barrier_invariant_def)

lemma all_state_snoc: "all_state (xs @ [y]) = all_state [all_state xs, y]"
proof (induction xs rule: all_state.induct)
  case 1
  show ?case by (cases y) simp_all
next
  case (2 e ss)
  show ?case by simp
next
  case (3 u ss)
  then show ?case by simp
next
  case (4 ss)
  then show ?case
    by (cases "all_state ss"; cases y) simp_all
qed

lemma all_state_Fulfilled: "(all_state xs = Fulfilled ()) = (\<forall>x \<in> set xs. x = Fulfilled ())"
  by (induction xs rule: all_state.induct) (auto split: outcome.splits)

lemma covers_resolve: "covers Promise_resolve 0"
  by (simp add: covers_def)

lemma covers_all:
  assumes "covers p n"
  shows "covers (Promise_all [p, Run_promise n]) (Suc n)"
  unfolding covers_def
proof (intro allI impI)
  fix ts :: "(string \<times> unit outcome) list"
  assume len: "Suc n \<le> length ts"
  then have "promise_state ts p = all_state (map snd (take n ts))"
    using assms by (simp add: covers_def)
  moreover from len have "take (Suc n) ts = take n ts @ [ts ! n]"
    by (simp add: take_Suc_conv_app_nth)
  ultimately show "promise_state ts (Promise_all [p, Run_promise n]) =
                     all_state (map snd (take (Suc n) ts))"
    using len by (simp add: all_state_snoc)
qed

lemma covers_Fulfilled:
  assumes "covers p n" and "n \<le> length ts"
  shows "(promise_state ts p = Fulfilled ()) = (\<forall>k < n. snd (ts ! k) = Fulfilled ())"
proof -
  from assms have "promise_state ts p = all_state (map snd (take n ts))"
    by (simp add: covers_def)
  moreover have "(\<forall>x \<in> set (map snd (take n ts)). x = Fulfilled ()) =
                 (\<forall>k < n. snd (ts ! k) = Fulfilled ())"
    using assms(2) by (simp add: all_set_conv_all_nth)
  ultimately show ?thesis
    by (simp only: all_state_Fulfilled)
qed

lemma set_trap_shape:
  "(snd (set_trap table schema h) = h
    \<or> snd (set_trap table schema h) = h\<lparr>schemas := (schemas h)(table \<mapsto> schema)\<rparr>)
   \<or> (\<exists>sql. snd (set_trap table schema h) =
          h\<lparr>schemas := (schemas h)(table \<mapsto> schema),
            tasks := tasks h @ [(sql, Pending)],
            createTableTasks :=
              Promise_all [createTableTasks h, Run_promise (length (tasks h))]\<rparr>)"
  by (auto simp: set_trap_def Let_def split: sum.split)

lemma find_body_keeps:
  "tasks (snd (find_body exec table c l off h)) = tasks h \<and>
   createTableTasks (snd (find_body exec table c l off h)) = createTableTasks h"
  by (simp add: find_body_def Let_def on_db_def split: sum.split prod.split)

lemma count_body_keeps:
  "tasks (snd (count_body exec table col c h)) = tasks h \<and>
   createTableTasks (snd (count_body exec table col c h)) = createTableTasks h"
  by (simp add: count_body_def Let_def split: sum.split prod.split bool.split)

lemma distinct_body_keeps:
  "tasks (snd (distinct_body exec table col c l off h)) = tasks h \<and>
   createTableTasks (snd (distinct_body exec table col c l off h)) = createTableTasks h"
  by (simp add: distinct_body_def Let_def split: sum.split prod.split jsval.split)

lemma insert_body_keeps:
  "tasks (snd (insert_body exec table row h)) = tasks h \<and>
   createTableTasks (snd (insert_body exec table row h)) = createTableTasks h"
  by (simp add: insert_body_def Let_def on_db_def split: sum.split prod.split)

lemma remove_body_keeps:
  "tasks (snd (remove_body exec table c l off h)) = tasks h \<and>
   createTableTasks (snd (remove_body exec table c l off h)) = createTableTasks h"
  by (simp add: remove_body_def Let_def on_db_def split: sum.split prod.split)

lemma update_body_keeps:
  "tasks (snd (update_body exec table c row h)) = tasks h \<and>
   createTableTasks (snd (update_body exec table c row h)) = createTableTasks h"
  by (simp add: update_body_def Let_def on_db_def split: sum.split prod.split)

lemma body_of_keeps:
  "tasks (snd (body_of exec c h)) = tasks h \<and>
   createTableTasks (snd (body_of exec c h)) = createTableTasks h"
  by (cases c)
     (simp_all add: find_body_keeps count_body_keeps distinct_body_keeps insert_body_keeps
        remove_body_keeps update_body_keeps)

lemma complete_task_keeps:
  "length (tasks (complete_task exec n h)) = length (tasks h) \<and>
   createTableTasks (complete_task exec n h) = createTableTasks h"
  by (simp add: complete_task_def split: prod.split sum.split)

lemma resume_keeps:
  "length (tasks (handle (resume exec i sys))) = length (tasks (handle sys)) \<and>
   createTableTasks (handle (resume exec i sys)) = createTableTasks (handle sys) \<and>
   map (\<lambda>c. (awaited c, issued c)) (calls (resume exec i sys)) =
     map (\<lambda>c. (awaited c, issued c)) (calls sys)"
proof -
  have upd: "map (\<lambda>c. (awaited c, issued c)) (cs[i := (cs ! i)\<lparr>settled := s\<rparr>]) =
             map (\<lambda>c. (awaited c, issued c)) cs"
    for cs :: "async_call list" and s
  proof (cases "i < length cs")
    case True
    then have "(awaited (cs ! i), issued (cs ! i)) = map (\<lambda>c. (awaited c, issued c)) cs ! i"
      by simp
    then show ?thesis
      by (simp add: map_update del: nth_map)
  next
    case False
    then have "cs[i := (cs ! i)\<lparr>settled := s\<rparr>] = cs"
      by (intro list_update_beyond) simp
    then show ?thesis
      by (simp only: simp_thms)
  qed
  obtain r h where b: "body_of exec (operation (calls sys ! i)) (handle sys) = (r, h)"
    by (cases "body_of exec (operation (calls sys ! i)) (handle sys)")
  with body_of_keeps [of exec "operation (calls sys ! i)" "handle sys"]
  have h: "tasks h = tasks (handle sys)" "createTableTasks h = createTableTasks (handle sys)"
    by simp_all
  show ?thesis
    by (cases r) (simp_all add: resume_def b h upd split: outcome.split)
qed


lemma step_invariant:
  assumes "barrier_invariant sys"
  shows "barrier_invariant (step exec sys ev)"
proof (cases ev)
  case (Declare table schema)
  let ?h = "handle sys"
  from set_trap_shape [of table schema ?h]
  consider "snd (set_trap table schema ?h) = ?h"
    | "snd (set_trap table schema ?h) = ?h\<lparr>schemas := (schemas ?h)(table \<mapsto> schema)\<rparr>"
    | sql where "snd (set_trap table schema ?h) =
          ?h\<lparr>schemas := (schemas ?h)(table \<mapsto> schema),
             tasks := tasks ?h @ [(sql, Pending)],
             createTableTasks :=
               Promise_all [createTableTasks ?h, Run_promise (length (tasks ?h))]\<rparr>"
    by blast
  then show ?thesis
  proof cases
    case 1
    with assms Declare show ?thesis
      by (simp add: barrier_invariant_def)
  next
    case 2
    with assms Declare show ?thesis
      by (simp add: barrier_invariant_def)
  next
    case 3
    with assms Declare show ?thesis
      by (auto simp: barrier_invariant_def covers_all)
  qed
next
  case (Invoke c)
  with assms show ?thesis
    by (auto simp: barrier_invariant_def)
next
  case (Complete n)
  with assms complete_task_keeps [of exec n "handle sys"] show ?thesis
    by (simp add: barrier_invariant_def)
next
  case (Resume i)
  with assms resume_keeps [of exec i sys] show ?thesis
    by (simp add: barrier_invariant_pairs)
qed

lemma start_invariant: "barrier_invariant (start e)"
  by (simp add: barrier_invariant_def start_def Sqlongo_def covers_resolve)

lemma run_events_invariant:
  "barrier_invariant sys \<Longrightarrow> barrier_invariant (run_events exec evs sys)"
  unfolding run_events_def
  by (induction evs arbitrary: sys) (simp_all add: step_invariant)

lemma awaited_fulfilled:
  assumes "barrier_invariant sys" and "i < length (calls sys)"
  shows "(promise_state (tasks (handle sys)) (awaited (calls sys ! i)) = Fulfilled ()) =
         (\<forall>n < issued (calls sys ! i). snd (tasks (handle sys) ! n) = Fulfilled ())"
proof -
  from assms have "covers (awaited (calls sys ! i)) (issued (calls sys ! i))"
      and "issued (calls sys ! i) \<le> length (tasks (handle sys))"
    by (simp_all add: barrier_invariant_def)
  then show ?thesis
    by (rule covers_Fulfilled)
qed

lemma declare_then_insert:
  assumes created:
      "exec e (create_table_sql table
                 (join '', '' (map (\<lambda>k. k @ '' '' @ toString (get_prop (Obj kvs) k))
                                 (map fst kvs)))) [] = Inr (rs, e1)"
    and keys: "keys = filter (\<lambda>k. k \<in> set (map fst kvs)) (map fst row)"
    and inserted:
      "exec e1 (statement (''insert into '' @ table @ ''('' @ join '', '' keys @ '') values('' @
                             join '', '' (map (\<lambda>k. ''?'') keys) @ '')''))
         (map (get_prop (Obj row)) keys) = Inr (rs', e2)"
  shows "settled (calls (run_events exec
                          [Declare table (Obj kvs), Invoke (Insert table (Obj row)), Resume 0]
                          (start e)) ! 0) = Pending
       \<and> db (handle (run_events exec
                        [Declare table (Obj kvs), Invoke (Insert table (Obj row)), Resume 0]
                        (start e))) = e
       \<and> settled (calls (run_events exec
                            [Declare table (Obj kvs), Invoke (Insert table (Obj row)), Resume 0,
                             Complete 0, Resume 0]
                            (start e)) ! 0) = Fulfilled Undefined
       \<and> db (handle (run_events exec
                        [Declare table (Obj kvs), Invoke (Insert table (Obj row)), Resume 0,
                         Complete 0, Resume 0]
                        (start e))) = e2"
proof -
  have fk: "filteredKeys (Obj row) (Obj kvs) = Inr keys"
    by (simp add: filteredKeys_Obj keys)
  show ?thesis
    using created inserted
    by (simp add: run_events_def start_def Sqlongo_def set_trap_def resume_def complete_task_def
          insert_body_def run_def schema_of_def on_db_def fk Let_def)
qed


lemma operation_of_await:
  "operation_of exec c h = await_createTableTasks h (body_of exec c)"
  by (cases c)
     (simp_all add: find_op_def count_op_def distinct_op_def insert_op_def remove_op_def
        update_op_def)

lemma schema_of_createTableTasks [simp]:
  "schema_of (h\<lparr>createTableTasks := p\<rparr>) table = schema_of h table"
  by (simp add: schema_of_def)

lemma find_body_promise:
  "find_body exec table c l off (h\<lparr>createTableTasks := p\<rparr>) =
     (fst (find_body exec table c l off h),
      (snd (find_body exec table c l off h))\<lparr>createTableTasks := p\<rparr>)"
  by (simp add: find_body_def Let_def on_db_def split: sum.split prod.split)

lemma count_body_promise:
  "count_body exec table col c (h\<lparr>createTableTasks := p\<rparr>) =
     (fst (count_body exec table col c h),
      (snd (count_body exec table col c h))\<lparr>createTableTasks := p\<rparr>)"
  by (simp add: count_body_def Let_def split: sum.split prod.split bool.split)

lemma distinct_body_promise:
  "distinct_body exec table col c l off (h\<lparr>createTableTasks := p\<rparr>) =
     (fst (distinct_body exec table col c l off h),
      (snd (distinct_body exec table col c l off h))\<lparr>createTableTasks := p\<rparr>)"
  by (simp add: distinct_body_def Let_def split: sum.split prod.split jsval.split)

lemma insert_body_promise:
  "insert_body exec table row (h\<lparr>createTableTasks := p\<rparr>) =
     (fst (insert_body exec table row h),
      (snd (insert_body exec table row h))\<lparr>createTableTasks := p\<rparr>)"
  by (simp add: insert_body_def Let_def on_db_def split: sum.split prod.split)

lemma remove_body_promise:
  "remove_body exec table c l off (h\<lparr>createTableTasks := p\<rparr>) =
     (fst (remove_body exec table c l off h),
      (snd (remove_body exec table c l off h))\<lparr>createTableTasks := p\<rparr>)"
  by (simp add: remove_body_def Let_def on_db_def split: sum.split prod.split)

lemma update_body_promise:
  "update_body exec table c row (h\<lparr>createTableTasks := p\<rparr>) =
     (fst (update_body exec table c row h),
      (snd (update_body exec table c row h))\<lparr>createTableTasks := p\<rparr>)"
  by (simp add: update_body_def Let_def on_db_def split: sum.split prod.split)

lemma body_of_promise:
  "body_of exec c (h\<lparr>createTableTasks := p\<rparr>) =
     (fst (body_of exec c h), (snd (body_of exec c h))\<lparr>createTableTasks := p\<rparr>)"
  by (cases c)
     (simp_all add: find_body_promise count_body_promise distinct_body_promise
        insert_body_promise remove_body_promise update_body_promise)

lemma resume_operation:
  assumes "i < length (calls sys)" and "settled (calls sys ! i) = Pending"
  shows "resume exec i sys =
           (case operation_of exec (operation (calls sys ! i))
                   ((handle sys)\<lparr>createTableTasks := awaited (calls sys ! i)\<rparr>) of
              (Pending, h) \<Rightarrow> sys
            | (Rejected err, h) \<Rightarrow>
                \<lparr>handle = h\<lparr>createTableTasks := createTableTasks (handle sys)\<rparr>,
                 calls = (calls sys)[i := (calls sys ! i)\<lparr>settled := Rejected err\<rparr>]\<rparr>
            | (Fulfilled v, h) \<Rightarrow>
                \<lparr>handle = h\<lparr>createTableTasks := createTableTasks (handle sys)\<rparr>,
                 calls = (calls sys)[i := (calls sys ! i)\<lparr>settled := Fulfilled v\<rparr>]\<rparr>)"
proof -
  let ?c = "calls sys ! i"
  obtain r h where b: "body_of exec (operation ?c) (handle sys) = (r, h)"
    by (cases "body_of exec (operation ?c) (handle sys)")
  with body_of_keeps [of exec "operation ?c" "handle sys"]
  have keep: "createTableTasks h = createTableTasks (handle sys)"
    by simp
  have restored: "h\<lparr>createTableTasks := createTableTasks (handle sys)\<rparr> = h"
    using keep by simp
  have whole: "\<lparr>handle = handle sys, calls = cs\<rparr> = sys\<lparr>calls := cs\<rparr>" for cs
    by simp
  show ?thesis
    using assms
    by (cases "promise_state (tasks (handle sys)) (awaited ?c)"; cases r)
       (simp_all add: resume_def operation_of_await await_createTableTasks_def body_of_promise b
          restored whole)
qed


lemma createTableTasks_fulfilled:
  assumes "barrier_invariant sys"
  shows "(promise_state (tasks (handle sys)) (createTableTasks (handle sys)) = Fulfilled ()) =
         (\<forall>n < length (tasks (handle sys)). snd (tasks (handle sys) ! n) = Fulfilled ())"
proof -
  from assms have "covers (createTableTasks (handle sys)) (length (tasks (handle sys)))"
    by (simp add: barrier_invariant_def)
  then show ?thesis
    by (rule covers_Fulfilled) simp
qed

lemma declare_then_insert_op:
  assumes created:
      "exec e (create_table_sql table
                 (join '', '' (map (\<lambda>k. k @ '' '' @ toString (get_prop (Obj kvs) k))
                                 (map fst kvs)))) [] = Inr (rs, e1)"
    and keys: "keys = filter (\<lambda>k. k \<in> set (map fst kvs)) (map fst row)"
    and inserted:
      "exec e1 (statement (''insert into '' @ table @ ''('' @ join '', '' keys @ '') values('' @
                             join '', '' (map (\<lambda>k. ''?'') keys) @ '')''))
         (map (get_prop (Obj row)) keys) = Inr (rs', e2)"
  shows "insert_op exec table (Obj row) (snd (set_trap table (Obj kvs) (Sqlongo e))) =
           (Pending, snd (set_trap table (Obj kvs) (Sqlongo e)))
       \<and> fst (insert_op exec table (Obj row)
                (complete_task exec 0 (snd (set_trap table (Obj kvs) (Sqlongo e))))) =
           Fulfilled Undefined
       \<and> db (snd (insert_op exec table (Obj row)
                    (complete_task exec 0 (snd (set_trap table (Obj kvs) (Sqlongo e)))))) = e2"
proof -
  have fk: "filteredKeys (Obj row) (Obj kvs) = Inr keys"
    by (simp add: filteredKeys_Obj keys)
  show ?thesis
    using created inserted
    by (simp add: insert_op_def await_createTableTasks_def Sqlongo_def set_trap_def
          complete_task_def insert_body_def run_def schema_of_def on_db_def fk Let_def)
qed

text \<open>
  C4. In every system reached from a new handle by any sequence of declarations,
  invocations, completions of creation statements and turns of the event loop: each of the
  six operations, called on the handle, stays pending or rejects, with the handle as it
  was, while one of the creation statements issued so far has not completed successfully,
  and is the outcome of its body, which compiles and runs the SQL, once all of them have.
  A call that was invoked earlier and has not settled behaves in the same way towards the
  creation statements issued before its invocation: the event loop's turn to it is the
  operation on the handle with the promise that the call read from \<open>createTableTasks\<close>
  when it was invoked, so the call does nothing but wait or reject while one of those
  statements has not completed successfully, and its body runs when all of them have. In
  particular, for a table that is declared and an \<open>insert\<close> that is invoked at once: the
  operation is pending on the handle that the declaration left, a turn of the event loop
  before the creation statement has completed leaves the call pending and the database as
  it was, and after the completion the call is fulfilled, the insert statement having run
  on the database that the creation statement left, when the database accepts the two
  statements in that order.
\<close>

theorem operations_wait_for_creation:
  assumes run: "sys = run_events exec evs (start e)"
      and call: "i < length (calls sys)"
      and waiting: "settled (calls sys ! i) = Pending"
  shows "((\<exists>n < issued (calls sys ! i). snd (tasks (handle sys) ! n) \<noteq> Fulfilled ()) \<longrightarrow>
            resume exec i sys = sys \<or>
            (\<exists>err. resume exec i sys =
                     sys\<lparr>calls := (calls sys)[i := (calls sys ! i)\<lparr>settled := Rejected err\<rparr>]\<rparr>))
       \<and> ((\<forall>n < issued (calls sys ! i). snd (tasks (handle sys) ! n) = Fulfilled ()) \<longrightarrow>
            resume exec i sys =
              (case body_of exec (operation (calls sys ! i)) (handle sys) of
                 (Inl err, h) \<Rightarrow>
                   \<lparr>handle = h,
                    calls = (calls sys)[i := (calls sys ! i)\<lparr>settled := Rejected err\<rparr>]\<rparr>
               | (Inr v, h) \<Rightarrow>
                   \<lparr>handle = h,
                    calls = (calls sys)[i := (calls sys ! i)\<lparr>settled := Fulfilled v\<rparr>]\<rparr>))
       \<and> ((\<exists>n < length (tasks (handle sys)). snd (tasks (handle sys) ! n) \<noteq> Fulfilled ()) \<longrightarrow>
            operation_of exec c (handle sys) = (Pending, handle sys) \<or>
            (\<exists>err. operation_of exec c (handle sys) = (Rejected err, handle sys)))
       \<and> ((\<forall>n < length (tasks (handle sys)). snd (tasks (handle sys) ! n) = Fulfilled ()) \<longrightarrow>
            operation_of exec c (handle sys) =
              (case body_of exec c (handle sys) of
                 (Inl err, h) \<Rightarrow> (Rejected err, h)
               | (Inr v, h) \<Rightarrow> (Fulfilled v, h)))
       \<and> resume exec i sys =
           (case operation_of exec (operation (calls sys ! i))
                   ((handle sys)\<lparr>createTableTasks := awaited (calls sys ! i)\<rparr>) of
              (Pending, h) \<Rightarrow> sys
            | (Rejected err, h) \<Rightarrow>
                \<lparr>handle = h\<lparr>createTableTasks := createTableTasks (handle sys)\<rparr>,
                 calls = (calls sys)[i := (calls sys ! i)\<lparr>settled := Rejected err\<rparr>]\<rparr>
            | (Fulfilled v, h) \<Rightarrow>
                \<lparr>handle = h\<lparr>createTableTasks := createTableTasks (handle sys)\<rparr>,
                 calls = (calls sys)[i := (calls sys ! i)\<lparr>settled := Fulfilled v\<rparr>]\<rparr>)
       \<and> (exec' e0 (create_table_sql table
                       (join '', '' (map (\<lambda>k. k @ '' '' @ toString (get_prop (Obj kvs) k))
                                       (map fst kvs)))) [] = Inr (rs, e1)
          \<and> keys = filter (\<lambda>k. k \<in> set (map fst kvs)) (map fst row)
          \<and> exec' e1 (statement (''insert into '' @ table @ ''('' @ join '', '' keys @
                                    '') values('' @ join '', '' (map (\<lambda>k. ''?'') keys) @ '')''))
                (map (get_prop (Obj row)) keys) = Inr (rs', e2) \<longrightarrow>
            settled (calls (run_events exec'
                              [Declare table (Obj kvs), Invoke (Insert table (Obj row)), Resume 0]
                              (start e0)) ! 0) = Pending
          \<and> db (handle (run_events exec'
                            [Declare table (Obj kvs), Invoke (Insert table (Obj row)), Resume 0]
                            (start e0))) = e0
          \<and> settled (calls (run_events exec'
                                [Declare table (Obj kvs), Invoke (Insert table (Obj row)),
                                 Resume 0, Complete 0, Resume 0]
                                (start e0)) ! 0) = Fulfilled Undefined
          \<and> db (handle (run_events exec'
                            [Declare table (Obj kvs), Invoke (Insert table (Obj row)),
                             Resume 0, Complete 0, Resume 0]
                            (start e0))) = e2
          \<and> insert_op exec' table (Obj row) (snd (set_trap table (Obj kvs) (Sqlongo e0))) =
              (Pending, snd (set_trap table (Obj kvs) (Sqlongo e0)))
          \<and> fst (insert_op exec' table (Obj row)
                   (complete_task exec' 0 (snd (set_trap table (Obj kvs) (Sqlongo e0))))) =
              Fulfilled Undefined
          \<and> db (snd (insert_op exec' table (Obj row)
                       (complete_task exec' 0 (snd (set_trap table (Obj kvs) (Sqlongo e0)))))) =
              e2)"
proof -
  have inv: "barrier_invariant sys"
    unfolding run by (rule run_events_invariant) (rule start_invariant)
  note fulfilled = awaited_fulfilled [OF inv call]
  note ready = createTableTasks_fulfilled [OF inv]
  have blocked: "resume exec i sys = sys \<or>
          (\<exists>err. resume exec i sys =
                   sys\<lparr>calls := (calls sys)[i := (calls sys ! i)\<lparr>settled := Rejected err\<rparr>]\<rparr>)"
    if "\<exists>n < issued (calls sys ! i). snd (tasks (handle sys) ! n) \<noteq> Fulfilled ()"
  proof -
    from that fulfilled
    have "promise_state (tasks (handle sys)) (awaited (calls sys ! i)) \<noteq> Fulfilled ()"
      by blast
    with call waiting show ?thesis
      by (cases "promise_state (tasks (handle sys)) (awaited (calls sys ! i))")
         (auto simp: resume_def)
  qed
  have entered: "resume exec i sys =
            (case body_of exec (operation (calls sys ! i)) (handle sys) of
               (Inl err, h) \<Rightarrow>
                 \<lparr>handle = h,
                  calls = (calls sys)[i := (calls sys ! i)\<lparr>settled := Rejected err\<rparr>]\<rparr>
             | (Inr v, h) \<Rightarrow>
                 \<lparr>handle = h,
                  calls = (calls sys)[i := (calls sys ! i)\<lparr>settled := Fulfilled v\<rparr>]\<rparr>)"
    if "\<forall>n < issued (calls sys ! i). snd (tasks (handle sys) ! n) = Fulfilled ()"
  proof -
    from that fulfilled
    have "promise_state (tasks (handle sys)) (awaited (calls sys ! i)) = Fulfilled ()"
      by blast
    with call waiting show ?thesis
      by (simp add: resume_def)
  qed
  have held: "operation_of exec c (handle sys) = (Pending, handle sys) \<or>
              (\<exists>err. operation_of exec c (handle sys) = (Rejected err, handle sys))"
    if "\<exists>n < length (tasks (handle sys)). snd (tasks (handle sys) ! n) \<noteq> Fulfilled ()"
  proof -
    from that ready
    have "promise_state (tasks (handle sys)) (createTableTasks (handle sys)) \<noteq> Fulfilled ()"
      by blast
    then show ?thesis
      by (cases "promise_state (tasks (handle sys)) (createTableTasks (handle sys))")
         (auto simp: operation_of_await await_createTableTasks_def)
  qed
  have proceeds: "operation_of exec c (handle sys) =
                    (case body_of exec c (handle sys) of
                       (Inl err, h) \<Rightarrow> (Rejected err, h)
                     | (Inr v, h) \<Rightarrow> (Fulfilled v, h))"
    if "\<forall>n < length (tasks (handle sys)). snd (tasks (handle sys) ! n) = Fulfilled ()"
  proof -
    from that ready
    have "promise_state (tasks (handle sys)) (createTableTasks (handle sys)) = Fulfilled ()"
      by blast
    then show ?thesis
      by (simp add: operation_of_await await_createTableTasks_def)
  qed
  note turn = resume_operation [OF call waiting, of exec]
  from blocked entered held proceeds turn
       declare_then_insert [of exec' e0 table kvs rs e1 keys row rs' e2]
       declare_then_insert_op [of exec' e0 table kvs rs e1 keys row rs' e2]
  show ?thesis
    by blast
qed

theorem operations_wait_for_creation_witness:
  "0 < length (calls (run_events example_exec declare_and_insert (start [])))
   \<and> settled (calls (run_events example_exec declare_and_insert (start [])) ! 0) = Pending
   \<and> issued (calls (run_events example_exec declare_and_insert (start [])) ! 0) = 1
   \<and> length (tasks (handle (run_events example_exec declare_and_insert (start [])))) = 1
   \<and> snd (tasks (handle (run_events example_exec declare_and_insert (start []))) ! 0) = Pending
   \<and> insert_op example_exec ''test1'' (Obj [(''content'', Str ''x'')])
         (handle (run_events example_exec declare_and_insert (start []))) =
       (Pending, handle (run_events example_exec declare_and_insert (start [])))
   \<and> resume example_exec 0 (run_events example_exec declare_and_insert (start [])) =
       run_events example_exec declare_and_insert (start [])
   \<and> settled (calls (run_events example_exec (declare_and_insert @ [Complete 0]) (start [])) ! 0)
       = Pending
   \<and> length (tasks (handle (run_events example_exec (declare_and_insert @ [Complete 0])
                               (start [])))) = 1
   \<and> snd (tasks (handle (run_events example_exec (declare_and_insert @ [Complete 0]) (start [])))
            ! 0) = Fulfilled ()
   \<and> fst (insert_op example_exec ''test1'' (Obj [(''content'', Str ''x'')])
              (handle (run_events example_exec (declare_and_insert @ [Complete 0]) (start []))))
       = Fulfilled Undefined
   \<and> db (snd (insert_op example_exec ''test1'' (Obj [(''content'', Str ''x'')])
                  (handle (run_events example_exec (declare_and_insert @ [Complete 0])
                             (start [])))))
       = [Obj [(''id'', Num 1), (''content'', Str ''x'')]]
   \<and> settled (calls (resume example_exec 0
                       (run_events example_exec (declare_and_insert @ [Complete 0]) (start [])))
                ! 0) = Fulfilled Undefined
   \<and> db (handle (resume example_exec 0
                    (run_events example_exec (declare_and_insert @ [Complete 0]) (start []))))
       = [Obj [(''id'', Num 1), (''content'', Str ''x'')]]
   \<and> settled (calls (run_events example_exec (declare_and_insert @ [Resume 0, Complete 0, Resume 0])
                       (start [])) ! 0) = Fulfilled Undefined"
proof -
  let ?sys = "run_events example_exec declare_and_insert (start [])"
  let ?done = "run_events example_exec (declare_and_insert @ [Complete 0]) (start [])"
  let ?insert = "Insert ''test1'' (Obj [(''content'', Str ''x'')])"
  let ?stored = "[Obj [(''id'', Num 1), (''content'', Str ''x'')]]"
  have call: "0 < length (calls ?sys)"
    by code_simp
  have waiting: "settled (calls ?sys ! 0) = Pending"
    by code_simp
  have issued: "issued (calls ?sys ! 0) = 1"
    by code_simp
  have one: "length (tasks (handle ?sys)) = 1"
    by code_simp
  have pending: "snd (tasks (handle ?sys) ! 0) = Pending"
    by code_simp
  have call': "0 < length (calls ?done)"
    by code_simp
  have waiting': "settled (calls ?done ! 0) = Pending"
    by code_simp
  have issued': "issued (calls ?done ! 0) = 1"
    by code_simp
  have one': "length (tasks (handle ?done)) = 1"
    by code_simp
  have completed: "snd (tasks (handle ?done) ! 0) = Fulfilled ()"
    by code_simp
  have body: "fst (body_of example_exec (operation (calls ?done ! 0)) (handle ?done)) = Inr Undefined"
    by code_simp
  have body_db: "db (snd (body_of example_exec (operation (calls ?done ! 0)) (handle ?done))) =
                   ?stored"
    by code_simp
  have body': "fst (body_of example_exec ?insert (handle ?done)) = Inr Undefined"
    by code_simp
  have body_db': "db (snd (body_of example_exec ?insert (handle ?done))) = ?stored"
    by code_simp
  from pending issued
  have some: "\<exists>n < issued (calls ?sys ! 0). snd (tasks (handle ?sys) ! n) \<noteq> Fulfilled ()"
    by auto
  from pending one
  have unfinished: "\<exists>n < length (tasks (handle ?sys)). snd (tasks (handle ?sys) ! n) \<noteq> Fulfilled ()"
    by auto
  from completed issued'
  have every: "\<forall>n < issued (calls ?done ! 0). snd (tasks (handle ?done) ! n) = Fulfilled ()"
    by simp
  from completed one'
  have finished: "\<forall>n < length (tasks (handle ?done)). snd (tasks (handle ?done) ! n) = Fulfilled ()"
    by simp
  note before = operations_wait_for_creation [where c = ?insert, OF refl call waiting]
  note after = operations_wait_for_creation [where c = ?insert, OF refl call' waiting']
  note blocked = before [THEN conjunct1, THEN mp, OF some]
  note entered = after [THEN conjunct2, THEN conjunct1, THEN mp, OF every]
  note held = before [THEN conjunct2, THEN conjunct2, THEN conjunct1, THEN mp, OF unfinished]
  note proceeds = after [THEN conjunct2, THEN conjunct2, THEN conjunct2, THEN conjunct1,
                         THEN mp, OF finished]
  have not_rejected: "fst (insert_op example_exec ''test1'' (Obj [(''content'', Str ''x'')])
                             (handle ?sys)) = Pending"
    by code_simp
  from held not_rejected
  have op_pending: "insert_op example_exec ''test1'' (Obj [(''content'', Str ''x'')])
                      (handle ?sys) = (Pending, handle ?sys)"
    by auto
  obtain h' where ran': "body_of example_exec ?insert (handle ?done) = (Inr Undefined, h')"
    using body' by (cases "body_of example_exec ?insert (handle ?done)") simp
  with body_db' have h': "db h' = ?stored"
    by simp
  from proceeds ran' h'
  have op_fulfilled: "fst (insert_op example_exec ''test1'' (Obj [(''content'', Str ''x'')])
                             (handle ?done)) = Fulfilled Undefined"
    and op_stored: "db (snd (insert_op example_exec ''test1'' (Obj [(''content'', Str ''x'')])
                               (handle ?done))) = ?stored"
    by simp_all
  have still: "settled (calls (resume example_exec 0 ?sys) ! 0) = Pending"
    by code_simp
  from blocked have suspended: "resume example_exec 0 ?sys = ?sys"
  proof
    assume "\<exists>err. resume example_exec 0 ?sys =
                   ?sys\<lparr>calls := (calls ?sys)[0 := (calls ?sys ! 0)\<lparr>settled := Rejected err\<rparr>]\<rparr>"
    then obtain err where
      "settled (calls (resume example_exec 0 ?sys) ! 0) =
       settled (((calls ?sys)[0 := (calls ?sys ! 0)\<lparr>settled := Rejected err\<rparr>]) ! 0)"
      by auto
    with call still show ?thesis
      by simp
  qed
  obtain h where ran: "body_of example_exec (operation (calls ?done ! 0)) (handle ?done) =
                         (Inr Undefined, h)"
    using body by (cases "body_of example_exec (operation (calls ?done ! 0)) (handle ?done)") simp
  with body_db have h: "db h = ?stored"
    by simp
  from entered ran call'
  have fulfilled: "settled (calls (resume example_exec 0 ?done) ! 0) = Fulfilled Undefined"
    and stored: "db (handle (resume example_exec 0 ?done)) = db h"
    by simp_all
  have events: "declare_and_insert @ [Resume 0, Complete 0, Resume 0] =
                  [Declare ''test1''
                     (Obj [(''id'', Str ''integer primary key''), (''content'', Str ''varchar(100)'')]),
                   Invoke (Insert ''test1'' (Obj [(''content'', Str ''x'')])),
                   Resume 0, Complete 0, Resume 0]"
    by (simp add: declare_and_insert_def example_schema_def)
  have accepted:
    "example_exec [] (create_table_sql ''test1''
        (join '', ''
           (map (\<lambda>k. k @ '' '' @
                      toString (get_prop (Obj [(''id'', Str ''integer primary key''),
                                               (''content'', Str ''varchar(100)'')]) k))
              (map fst [(''id'', Str ''integer primary key''),
                        (''content'', Str ''varchar(100)'')])))) [] = Inr ([], [])
     \<and> [''content''] =
         filter (\<lambda>k. k \<in> set (map fst [(''id'', Str ''integer primary key''),
                                         (''content'', Str ''varchar(100)'')]))
           (map fst [(''content'', Str ''x'')])
     \<and> example_exec [] (statement (''insert into '' @ ''test1'' @ ''('' @ join '', '' [''content''] @
                                     '') values('' @ join '', '' (map (\<lambda>k. ''?'') [''content'']) @
                                     '')''))
         (map (get_prop (Obj [(''content'', Str ''x'')])) [''content''])
       = Inr ([], [Obj [(''id'', Num 1), (''content'', Str ''x'')]])"
    by code_simp
  note at_once = operations_wait_for_creation
                   [where exec' = example_exec and ?e0.0 = "[]" and table = "''test1''"
                      and kvs = "[(''id'', Str ''integer primary key''),
                                  (''content'', Str ''varchar(100)'')]"
                      and row = "[(''content'', Str ''x'')]" and keys = "[''content'']"
                      and rs = "[]" and ?e1.0 = "[]" and rs' = "[]"
                      and ?e2.0 = "[Obj [(''id'', Num 1), (''content'', Str ''x'')]]",
                    OF refl call waiting, THEN conjunct2, THEN conjunct2, THEN conjunct2,
                    THEN conjunct2, THEN conjunct2, THEN mp, OF accepted]
  have in_order: "settled (calls (run_events example_exec
                                    (declare_and_insert @ [Resume 0, Complete 0, Resume 0])
                                    (start [])) ! 0) = Fulfilled Undefined"
    unfolding events using at_once by blast
  from call waiting issued one pending op_pending suspended waiting' one' completed
       op_fulfilled op_stored fulfilled stored h in_order
  show ?thesis
    by simp
qed

end
